theory Spec2Isabelle
  imports Main "HOL-Library.Word"
begin

section \<open>Values carried by events\<close>

text \<open>
  An inbound Socket.IO event carries a JSON object; the handlers of \<^verbatim>\<open>main.py\<close> read it
  with \<^verbatim>\<open>data.get(key)\<close>, which gives \<^verbatim>\<open>None\<close> for a missing key (an event whose data is
  not an object is outside the model). The values are
  JSON scalars, and \<open>JComposite\<close> stands for a list or an object, of which the handlers
  only ever see the truth value (non-empty or empty) and the type. A JSON number with a
  fraction or an exponent is a Python \<^verbatim>\<open>float\<close>: \<open>Finite m e\<close> is the number \<open>m * 2 ^ e\<close>
  (every finite double has this form), and the decoder also yields the infinities (for
  \<^verbatim>\<open>1e400\<close>, \<^verbatim>\<open>Infinity\<close>) and \<^verbatim>\<open>NaN\<close>. A Python \<^verbatim>\<open>str\<close> is a \<open>string\<close> here, one \<open>char\<close>
  per code point below 256.
\<close>

datatype pyfloat = Finite int int | PosInf | NegInf | NaN

datatype jval =
    JNone | JBool bool | JInt int | JFloat pyfloat | JStr string | JComposite bool

type_synonym payload = "string \<rightharpoonup> jval"

definition dget :: "payload \<Rightarrow> string \<Rightarrow> jval" where
  "dget data k = (case data k of None \<Rightarrow> JNone | Some v \<Rightarrow> v)"

text \<open>Python's truth value of an object, as \<^verbatim>\<open>if not x\<close> tests it.\<close>

fun truthy :: "jval \<Rightarrow> bool" where
  "truthy JNone = False"
| "truthy (JBool b) = b"
| "truthy (JInt i) = (i \<noteq> 0)"
| "truthy (JFloat f) = (case f of Finite m e \<Rightarrow> m \<noteq> 0 | _ \<Rightarrow> True)"
| "truthy (JStr s) = (s \<noteq> [])"
| "truthy (JComposite nonempty) = nonempty"

text \<open>\<^verbatim>\<open>a or b\<close> evaluates to \<^verbatim>\<open>a\<close> when it is true and to \<^verbatim>\<open>b\<close> otherwise.\<close>

definition py_or :: "jval \<Rightarrow> jval \<Rightarrow> jval" where
  "py_or a b = (if truthy a then a else b)"

datatype pyerr =
    TypeError | ValueError | AttributeError
  | OverflowError | BindingError | IntegrityError | DatabaseFull

subsection \<open>\<^verbatim>\<open>int(x)\<close>\<close>

text \<open>
  \<^verbatim>\<open>int\<close> of a string strips white space on both sides (tab, line feed, vertical tab, form
  feed, carriage return, space, and of the code points from 128 on U+0085 and U+00A0),
  reads an optional sign and then decimal digits, where single underscores may stand
  between two digits. Anything else raises \<^verbatim>\<open>ValueError\<close>, and so does a literal of more
  than 4300 digits (\<^verbatim>\<open>sys.int_max_str_digits\<close>; leading zeros count, underscores do not).
\<close>

definition py_isspace :: "char \<Rightarrow> bool" where
  "py_isspace c = ((of_char c :: nat) \<in> {9, 10, 11, 12, 13, 32, 133, 160})"

definition int_max_str_digits :: nat where
  "int_max_str_digits = 4300"

definition py_isdigit :: "char \<Rightarrow> bool" where
  "py_isdigit c = (48 \<le> (of_char c :: nat) \<and> (of_char c :: nat) \<le> 57)"

definition digit_val :: "char \<Rightarrow> int" where
  "digit_val c = int (of_char c) - 48"

definition strip :: "string \<Rightarrow> string" where
  "strip s = rev (dropWhile py_isspace (rev (dropWhile py_isspace s)))"

fun int_digits :: "int \<Rightarrow> string \<Rightarrow> int option" where
  "int_digits acc [] = Some acc"
| "int_digits acc (c # cs) =
     (if py_isdigit c then int_digits (acc * 10 + digit_val c) cs
      else if c = CHR ''_'' then
        (case cs of
           [] \<Rightarrow> None
         | d # ds \<Rightarrow> if py_isdigit d then int_digits (acc * 10 + digit_val d) ds else None)
      else None)"

definition unsigned_literal :: "string \<Rightarrow> int option" where
  "unsigned_literal s =
     (if int_max_str_digits < length (filter py_isdigit s) then None
      else
        (case s of
           [] \<Rightarrow> None
         | d # ds \<Rightarrow> if py_isdigit d then int_digits (digit_val d) ds else None))"

definition int_of_str :: "string \<Rightarrow> int option" where
  "int_of_str s =
     (case strip s of
        [] \<Rightarrow> None
      | c # cs \<Rightarrow>
          if c = CHR ''-'' then map_option uminus (unsigned_literal cs)
          else if c = CHR ''+'' then unsigned_literal cs
          else unsigned_literal (c # cs))"

text \<open>
  \<^verbatim>\<open>int\<close> of a float truncates towards zero; an infinity raises \<^verbatim>\<open>OverflowError\<close> and
  \<^verbatim>\<open>NaN\<close> raises \<^verbatim>\<open>ValueError\<close>.
\<close>

definition float_trunc :: "int \<Rightarrow> int \<Rightarrow> int" where
  "float_trunc m e =
     (if 0 \<le> e then m * 2 ^ nat e else sgn m * (\<bar>m\<bar> div 2 ^ nat (- e)))"

fun py_int :: "jval \<Rightarrow> pyerr + int" where
  "py_int JNone = Inl TypeError"
| "py_int (JBool b) = Inr (if b then 1 else 0)"
| "py_int (JInt i) = Inr i"
| "py_int (JFloat (Finite m e)) = Inr (float_trunc m e)"
| "py_int (JFloat PosInf) = Inl OverflowError"
| "py_int (JFloat NegInf) = Inl OverflowError"
| "py_int (JFloat NaN) = Inl ValueError"
| "py_int (JStr s) = (case int_of_str s of None \<Rightarrow> Inl ValueError | Some i \<Rightarrow> Inr i)"
| "py_int (JComposite _) = Inl TypeError"

subsection \<open>\<^verbatim>\<open>str(i)\<close> and \<^verbatim>\<open>s.split(':')\<close>\<close>

definition digit_char :: "nat \<Rightarrow> char" where
  "digit_char d = ''0123456789'' ! d"

fun str_nat :: "nat \<Rightarrow> string" where
  "str_nat n =
     (if n < 10 then [digit_char n]
      else str_nat (n div 10) @ [digit_char (n mod 10)])"

definition py_str :: "int \<Rightarrow> string" where
  "py_str i = (if i < 0 then CHR ''-'' # str_nat (nat (- i)) else str_nat (nat i))"

text \<open>
  Converting an integer of more than 4300 digits to a string raises \<^verbatim>\<open>ValueError\<close>.
  \<open>py_str\<close> is the conversion where it succeeds; the handlers that format an integer a
  client sent test \<open>str_raises\<close> first.
\<close>

definition str_raises :: "int \<Rightarrow> bool" where
  "str_raises i = (int_max_str_digits < length (str_nat (nat \<bar>i\<bar>)))"

fun py_split :: "char \<Rightarrow> string \<Rightarrow> string list" where
  "py_split sep [] = [[]]"
| "py_split sep (c # cs) =
     (if c = sep then [] # py_split sep cs
      else (case py_split sep cs of
              [] \<Rightarrow> [[c]]
            | p # ps \<Rightarrow> (c # p) # ps))"

section \<open>Rooms\<close>

text \<open>
  The room of a personal conversation, as \<^verbatim>\<open>delete_message\<close> derives it from the two
  user ids: \<^verbatim>\<open>a, b = sorted([int(user_id), int(peer_id)]); room = f"{a}:{b}"\<close>.
\<close>

definition pair_room :: "int \<Rightarrow> int \<Rightarrow> string" where
  "pair_room user_id peer_id =
     (let ab = sort [user_id, peer_id]
      in py_str (ab ! 0) @ '':'' @ py_str (ab ! 1))"

definition chat_room :: "int \<Rightarrow> string" where
  "chat_room chat_id = ''chat:'' @ py_str chat_id"

definition channel_room :: "int \<Rightarrow> string" where
  "channel_room channel_id = ''channel:'' @ py_str channel_id"

definition user_room :: "int \<Rightarrow> string" where
  "user_room user_id = ''user:'' @ py_str user_id"

section \<open>The persistent message store\<close>

text \<open>
  The tables of \<^verbatim>\<open>db.py\<close> that the event handlers read or write, each as the list of its
  rows in scan order. An \<^verbatim>\<open>INTEGER\<close> column holds a signed 64-bit value, and a column
  without \<^verbatim>\<open>NOT NULL\<close> may hold \<^verbatim>\<open>NULL\<close> (\<open>None\<close>); foreign keys are not enforced by
  the connection. The three message tables have the same columns, the second integer
  column (\<^verbatim>\<open>to_user_id\<close>, \<^verbatim>\<open>chat_id\<close>, \<^verbatim>\<open>channel_id\<close>) being \<open>target_id\<close> here.
  Columns that no handler reads (passwords, display names of chats and channels) are
  left out. The \<^verbatim>\<open>TEXT\<close> column of a message holds the string that was bound, or the text
  SQLite renders a bound real number as (\<open>Real_text\<close>; the rendering itself is not
  modelled).
\<close>

type_synonym sqlint = "64 word"

record user_row =
  u_id :: sqlint
  u_name :: string

record member_row =
  cm_chat_id :: "sqlint option"
  cm_user_id :: "sqlint option"

record channel_row =
  ch_id :: sqlint
  ch_admin_id :: "sqlint option"

datatype sqltext = Text string | Real_text pyfloat

record message_row =
  row_id :: sqlint
  sender_id :: "sqlint option"
  target_id :: "sqlint option"
  content :: sqltext
  timestamp :: string

record database =
  users :: "user_row list"
  chat_members :: "member_row list"
  channels :: "channel_row list"
  personal_messages :: "message_row list"
  chat_messages :: "message_row list"
  channel_messages :: "message_row list"

subsection \<open>Binding Python values to statement parameters\<close>

text \<open>
  The \<^verbatim>\<open>sqlite3\<close> module raises \<^verbatim>\<open>OverflowError\<close> for a Python integer outside the
  signed 64-bit range and refuses a list or a dictionary. A \<^verbatim>\<open>TEXT\<close> column stores an
  integer in its decimal form. \<^verbatim>\<open>None\<close> and the float \<^verbatim>\<open>NaN\<close> are bound as \<^verbatim>\<open>NULL\<close> (\<open>None\<close>
  here), which the \<^verbatim>\<open>NOT NULL\<close> column refuses when the statement runs.
\<close>

definition fits_int64 :: "int \<Rightarrow> bool" where
  "fits_int64 i = (- (2 ^ 63) \<le> i \<and> i < 2 ^ 63)"

definition bind_text :: "jval \<Rightarrow> pyerr + sqltext option" where
  "bind_text v =
     (case v of
        JNone \<Rightarrow> Inr None
      | JBool b \<Rightarrow> Inr (Some (Text (if b then ''1'' else ''0'')))
      | JInt i \<Rightarrow> if fits_int64 i then Inr (Some (Text (py_str i))) else Inl OverflowError
      | JFloat f \<Rightarrow> (case f of NaN \<Rightarrow> Inr None | _ \<Rightarrow> Inr (Some (Real_text f)))
      | JStr s \<Rightarrow> Inr (Some (Text s))
      | JComposite _ \<Rightarrow> Inl BindingError)"

definition bind_opt_int :: "int option \<Rightarrow> pyerr + sqlint option" where
  "bind_opt_int v =
     (case v of
        None \<Rightarrow> Inr None
      | Some i \<Rightarrow> if fits_int64 i then Inr (Some (word_of_int i)) else Inl OverflowError)"

subsection \<open>Queries and updates of \<^verbatim>\<open>db.py\<close>\<close>

text \<open>\<^verbatim>\<open>SELECT id FROM users WHERE name = ?\<close>, first row; a \<^verbatim>\<open>None\<close> name matches no row.\<close>

definition get_user_id :: "string option \<Rightarrow> database \<Rightarrow> int option" where
  "get_user_id name db =
     (case name of
        None \<Rightarrow> None
      | Some n \<Rightarrow>
          (case find (\<lambda>r. u_name r = n) (users db) of
             None \<Rightarrow> None
           | Some r \<Rightarrow> Some (sint (u_id r))))"

definition is_user_chat_member :: "int \<Rightarrow> int \<Rightarrow> database \<Rightarrow> pyerr + bool" where
  "is_user_chat_member chat_id user_id db =
     (if fits_int64 chat_id \<and> fits_int64 user_id then
        Inr (find (\<lambda>r. cm_chat_id r = Some (word_of_int chat_id)
                      \<and> cm_user_id r = Some (word_of_int user_id)) (chat_members db) \<noteq> None)
      else Inl OverflowError)"

text \<open>
  \<^verbatim>\<open>SELECT admin_id FROM channels WHERE id = ?\<close>, then
  \<^verbatim>\<open>bool(result and result[0] == user_id)\<close>: the comparison is Python's.
\<close>

definition is_user_channel_admin :: "int \<Rightarrow> int \<Rightarrow> database \<Rightarrow> pyerr + bool" where
  "is_user_channel_admin user_id channel_id db =
     (if fits_int64 channel_id then
        Inr (case find (\<lambda>r. ch_id r = word_of_int channel_id) (channels db) of
               None \<Rightarrow> False
             | Some r \<Rightarrow> map_option sint (ch_admin_id r) = Some user_id)
      else Inl OverflowError)"

text \<open>
  An insert without an id takes the largest id in use plus one, and 1 in an empty table.
  When the largest 64-bit id is in use, SQLite draws random ids between 1 and \<open>2 ^ 62\<close>
  until one is unused, and fails (\<^verbatim>\<open>database or disk is full\<close>) when a hundred draws find
  none. The outcome of that search is the parameter \<open>probe\<close>: the unused id it found, or
  \<open>None\<close>. A probe that is not an unused id of that range is no outcome of the search
  and counts as none found.
\<close>

definition next_rowid :: "sqlint option \<Rightarrow> message_row list \<Rightarrow> pyerr + sqlint" where
  "next_rowid probe rows =
     (if rows = [] then Inr 1
      else let m = Max (set (map (sint \<circ> row_id) rows))
           in if m < 2 ^ 63 - 1 then Inr (word_of_int (m + 1))
              else
                (case probe of
                   None \<Rightarrow> Inl DatabaseFull
                 | Some i \<Rightarrow>
                     if 1 \<le> sint i \<and> sint i \<le> 2 ^ 62 \<and> i \<notin> set (map row_id rows)
                     then Inr i
                     else Inl DatabaseFull))"

text \<open>
  \<^verbatim>\<open>INSERT INTO t (sender_id, target, content) VALUES (?, ?, ?)\<close>: the three parameters
  are bound in order, the statement takes the new id and then checks \<^verbatim>\<open>NOT NULL\<close>; the
  timestamp column takes its default, the clock \<open>now\<close>. The result is the new table and
  \<^verbatim>\<open>lastrowid\<close>.
\<close>

definition insert_message ::
  "int option \<Rightarrow> int option \<Rightarrow> jval \<Rightarrow> string \<Rightarrow> sqlint option \<Rightarrow> message_row list
     \<Rightarrow> pyerr + (int \<times> message_row list)" where
  "insert_message sender target text now probe rows =
     (case bind_opt_int sender of
        Inl e \<Rightarrow> Inl e
      | Inr s \<Rightarrow>
     (case bind_opt_int target of
        Inl e \<Rightarrow> Inl e
      | Inr t \<Rightarrow>
     (case bind_text text of
        Inl e \<Rightarrow> Inl e
      | Inr bound \<Rightarrow>
     (case next_rowid probe rows of
        Inl e \<Rightarrow> Inl e
      | Inr i \<Rightarrow>
     (case bound of
        None \<Rightarrow> Inl IntegrityError
      | Some c \<Rightarrow>
          Inr (sint i, rows @ [\<lparr>row_id = i, sender_id = s, target_id = t,
                                content = c, timestamp = now\<rparr>]))))))"

definition create_personal_message ::
  "int option \<Rightarrow> int \<Rightarrow> jval \<Rightarrow> string \<Rightarrow> sqlint option \<Rightarrow> database
     \<Rightarrow> pyerr + (int \<times> database)" where
  "create_personal_message sender to_user_id text now probe db =
     (case insert_message sender (Some to_user_id) text now probe (personal_messages db) of
        Inl e \<Rightarrow> Inl e
      | Inr (i, rows) \<Rightarrow> Inr (i, db\<lparr>personal_messages := rows\<rparr>))"

definition create_chat_message ::
  "int \<Rightarrow> int \<Rightarrow> jval \<Rightarrow> string \<Rightarrow> sqlint option \<Rightarrow> database
     \<Rightarrow> pyerr + (int \<times> database)" where
  "create_chat_message chat_id sender text now probe db =
     (case insert_message (Some sender) (Some chat_id) text now probe (chat_messages db) of
        Inl e \<Rightarrow> Inl e
      | Inr (i, rows) \<Rightarrow> Inr (i, db\<lparr>chat_messages := rows\<rparr>))"

definition create_channel_message ::
  "int \<Rightarrow> int \<Rightarrow> jval \<Rightarrow> string \<Rightarrow> sqlint option \<Rightarrow> database
     \<Rightarrow> pyerr + (int \<times> database)" where
  "create_channel_message channel_id sender text now probe db =
     (case insert_message (Some sender) (Some channel_id) text now probe (channel_messages db) of
        Inl e \<Rightarrow> Inl e
      | Inr (i, rows) \<Rightarrow> Inr (i, db\<lparr>channel_messages := rows\<rparr>))"

text \<open>\<^verbatim>\<open>SELECT timestamp FROM t WHERE id = ?\<close> and \<^verbatim>\<open>row[0] if row else None\<close>.\<close>

definition select_timestamp :: "int \<Rightarrow> message_row list \<Rightarrow> pyerr + string option" where
  "select_timestamp message_id rows =
     (if fits_int64 message_id then
        Inr (map_option timestamp (find (\<lambda>r. row_id r = word_of_int message_id) rows))
      else Inl OverflowError)"

text \<open>
  \<^verbatim>\<open>DELETE FROM t WHERE id = ? AND sender_id = ?\<close> and \<^verbatim>\<open>rowcount > 0\<close>: the rows that
  match are removed, and the result tells whether there was one.
\<close>

definition owned_by :: "int \<Rightarrow> int \<Rightarrow> message_row \<Rightarrow> bool" where
  "owned_by message_id owner_id r =
     (row_id r = word_of_int message_id \<and> sender_id r = Some (word_of_int owner_id))"

definition delete_rows ::
  "int \<Rightarrow> int \<Rightarrow> message_row list \<Rightarrow> pyerr + (bool \<times> message_row list)" where
  "delete_rows message_id owner_id rows =
     (if fits_int64 message_id \<and> fits_int64 owner_id then
        let rowcount = length (filter (owned_by message_id owner_id) rows)
        in Inr (rowcount > 0, filter (\<lambda>r. \<not> owned_by message_id owner_id r) rows)
      else Inl OverflowError)"

definition delete_personal_message ::
  "int \<Rightarrow> int \<Rightarrow> database \<Rightarrow> pyerr + (bool \<times> database)" where
  "delete_personal_message message_id owner_id db =
     (case delete_rows message_id owner_id (personal_messages db) of
        Inl e \<Rightarrow> Inl e
      | Inr (ok, rows) \<Rightarrow> Inr (ok, db\<lparr>personal_messages := rows\<rparr>))"

definition delete_chat_message ::
  "int \<Rightarrow> int \<Rightarrow> database \<Rightarrow> pyerr + (bool \<times> database)" where
  "delete_chat_message message_id owner_id db =
     (case delete_rows message_id owner_id (chat_messages db) of
        Inl e \<Rightarrow> Inl e
      | Inr (ok, rows) \<Rightarrow> Inr (ok, db\<lparr>chat_messages := rows\<rparr>))"

definition delete_channel_message ::
  "int \<Rightarrow> int \<Rightarrow> database \<Rightarrow> pyerr + (bool \<times> database)" where
  "delete_channel_message message_id owner_id db =
     (case delete_rows message_id owner_id (channel_messages db) of
        Inl e \<Rightarrow> Inl e
      | Inr (ok, rows) \<Rightarrow> Inr (ok, db\<lparr>channel_messages := rows\<rparr>))"

section \<open>Outbound events\<close>

text \<open>
  What a handler emits, in order. \<^verbatim>\<open>sio.emit(event, data)\<close> reaches every connected
  client, \<^verbatim>\<open>emit(event, data)\<close> of Flask-SocketIO the connection that sent the event, and
  \<^verbatim>\<open>to=room\<close> the connections that joined the room.
\<close>

datatype dest = Everyone | Sender | Room string

text \<open>
  The events with their payloads: \<^verbatim>\<open>presence {user_id, online}\<close>, \<^verbatim>\<open>system {message}\<close>,
  \<^verbatim>\<open>message_deleted {id}\<close>, and the three message events with \<^verbatim>\<open>{id, username, text, ts}\<close>,
  where the text is the value the client sent and \<^verbatim>\<open>ts\<close> the timestamp read back from the
  store.
\<close>

datatype event =
    Presence int bool
  | System string
  | Message_deleted int
  | Personal_message int "string option" jval "string option"
  | Chat_message int "string option" jval "string option"
  | Channel_message int "string option" jval "string option"

type_synonym emission = "dest \<times> event"

datatype outcome = Returned | Raised pyerr

section \<open>Connection and presence: \<^verbatim>\<open>main.py\<close>\<close>

text \<open>
  \<^verbatim>\<open>ONLINE_USER_IDS\<close> and the rooms each connection has joined. A connection is named by
  its session id; \<open>username\<close> is \<^verbatim>\<open>session.get('username')\<close> of that connection. The
  handlers are modelled as they stand: Socket.IO itself takes a closed connection out of
  its rooms after \<^verbatim>\<open>handle_disconnect\<close> has run.
\<close>

record runtime =
  online_user_ids :: "int set"
  rooms :: "(nat \<times> string) set"

definition no_username :: "string option \<Rightarrow> bool" where
  "no_username username = (case username of None \<Rightarrow> True | Some n \<Rightarrow> n = [])"

definition no_user_id :: "int option \<Rightarrow> bool" where
  "no_user_id user_id = (case user_id of None \<Rightarrow> True | Some u \<Rightarrow> u = 0)"

text \<open>The first component tells whether the connection is accepted (the handler returns
  \<^verbatim>\<open>False\<close> to refuse it).\<close>

definition handle_connect ::
  "nat \<Rightarrow> string option \<Rightarrow> database \<Rightarrow> runtime \<Rightarrow> bool \<times> runtime \<times> emission list" where
  "handle_connect sid username db rt =
     (case username of
        None \<Rightarrow> (False, rt, [])
      | Some name \<Rightarrow>
          if name = [] then (False, rt, [])
          else
            (case get_user_id username db of
               None \<Rightarrow> (True, rt, [(Sender, System (name @ '' connected''))])
             | Some user_id \<Rightarrow>
                 if user_id \<noteq> 0 then
                   (True,
                    rt\<lparr>online_user_ids := insert user_id (online_user_ids rt),
                       rooms := insert (sid, user_room user_id) (rooms rt)\<rparr>,
                    [(Everyone, Presence user_id True),
                     (Sender, System (name @ '' connected''))])
                 else (True, rt, [(Sender, System (name @ '' connected''))])))"

definition handle_disconnect ::
  "nat \<Rightarrow> string option \<Rightarrow> database \<Rightarrow> runtime \<Rightarrow> runtime \<times> emission list" where
  "handle_disconnect sid username db rt =
     (if no_username username then (rt, [])
      else
        (case get_user_id username db of
           None \<Rightarrow> (rt, [])
         | Some user_id \<Rightarrow>
             if user_id \<noteq> 0 \<and> user_id \<in> online_user_ids rt then
               (rt\<lparr>online_user_ids := online_user_ids rt - {user_id}\<rparr>,
                [(Everyone, Presence user_id False)])
             else (rt, [])))"

section \<open>The message router: \<^verbatim>\<open>main.py\<close>\<close>

text \<open>
  Each handler takes the session's user name, the event's data and the store, and gives
  how it ended, the store afterwards and what it emitted. \<open>now\<close> is the clock the store
  stamps a new row with, and \<open>probe\<close> the outcome of SQLite's search for an unused id
  (see \<open>next_rowid\<close>).
\<close>

type_synonym reaction = "outcome \<times> database \<times> emission list"

definition dropped :: "database \<Rightarrow> reaction" where
  "dropped db = (Returned, db, [])"

definition raised :: "pyerr \<Rightarrow> database \<Rightarrow> reaction" where
  "raised e db = (Raised e, db, [])"

text \<open>\<^verbatim>\<open>except (TypeError, ValueError): return\<close>; any other exception leaves the handler.\<close>

definition except_return :: "pyerr list \<Rightarrow> pyerr \<Rightarrow> database \<Rightarrow> reaction" where
  "except_return caught e db = (if e \<in> set caught then dropped db else raised e db)"

definition personal_message ::
  "string option \<Rightarrow> payload \<Rightarrow> string \<Rightarrow> sqlint option \<Rightarrow> database \<Rightarrow> reaction" where
  "personal_message username data now probe db =
     (let self_id = get_user_id username db;
          text = dget data ''text'';
          room = dget data ''room''
      in if \<not> truthy text \<or> no_username username \<or> \<not> truthy room then dropped db
         else
           (case room of
              JStr r \<Rightarrow>
                (case py_split CHR '':'' r of
                   [user1, user2] \<Rightarrow>
                     (case py_int (JStr user1) of
                        Inl e \<Rightarrow> except_return [ValueError] e db
                      | Inr user1_id \<Rightarrow>
                     (case py_int (JStr user2) of
                        Inl e \<Rightarrow> except_return [ValueError] e db
                      | Inr user2_id \<Rightarrow>
                          let other_user_id =
                                (if self_id = Some user1_id then user2_id else user1_id)
                          in (case create_personal_message self_id other_user_id text now probe db of
                                Inl e \<Rightarrow> raised e db
                              | Inr (message_id, db') \<Rightarrow>
                                  (case select_timestamp message_id (personal_messages db') of
                                     Inl e \<Rightarrow> raised e db'
                                   | Inr ts \<Rightarrow>
                                       (Returned, db',
                                        [(Room r,
                                          Personal_message message_id username text ts)])))))
                 | _ \<Rightarrow> raised ValueError db)
            | _ \<Rightarrow> raised AttributeError db))"

definition chat_message ::
  "string option \<Rightarrow> payload \<Rightarrow> string \<Rightarrow> sqlint option \<Rightarrow> database \<Rightarrow> reaction" where
  "chat_message username data now probe db =
     (let user_id = get_user_id username db;
          text = dget data ''text'';
          chat_id = dget data ''chat_id''
      in if \<not> truthy text \<or> \<not> truthy chat_id \<or> no_user_id user_id then dropped db
         else
           (case user_id of
              None \<Rightarrow> dropped db
            | Some uid \<Rightarrow>
           (case py_int chat_id of
              Inl e \<Rightarrow> except_return [TypeError, ValueError] e db
            | Inr cid \<Rightarrow>
           (case is_user_chat_member cid uid db of
              Inl e \<Rightarrow> raised e db
            | Inr member \<Rightarrow>
                if \<not> member then dropped db
                else
                  (case create_chat_message cid uid text now probe db of
                     Inl e \<Rightarrow> raised e db
                   | Inr (message_id, db') \<Rightarrow>
                       (case select_timestamp message_id (chat_messages db') of
                          Inl e \<Rightarrow> raised e db'
                        | Inr ts \<Rightarrow>
                            (Returned, db',
                             [(Room (chat_room cid),
                               Chat_message message_id username text ts)])))))))"

definition channel_message ::
  "string option \<Rightarrow> payload \<Rightarrow> string \<Rightarrow> sqlint option \<Rightarrow> database \<Rightarrow> reaction" where
  "channel_message username data now probe db =
     (let user_id = get_user_id username db;
          text = dget data ''text'';
          channel_id = dget data ''channel_id''
      in if \<not> truthy text \<or> \<not> truthy channel_id \<or> no_user_id user_id then dropped db
         else
           (case user_id of
              None \<Rightarrow> dropped db
            | Some uid \<Rightarrow>
           (case py_int channel_id of
              Inl e \<Rightarrow> except_return [TypeError, ValueError] e db
            | Inr cid \<Rightarrow>
           (case is_user_channel_admin uid cid db of
              Inl e \<Rightarrow> raised e db
            | Inr admin \<Rightarrow>
                if \<not> admin then dropped db
                else
                  (case create_channel_message cid uid text now probe db of
                     Inl e \<Rightarrow> raised e db
                   | Inr (message_id, db') \<Rightarrow>
                       (case select_timestamp message_id (channel_messages db') of
                          Inl e \<Rightarrow> raised e db'
                        | Inr ts \<Rightarrow>
                            (Returned, db',
                             [(Room (channel_room cid),
                               Channel_message message_id username text ts)])))))))"

text \<open>
  \<^verbatim>\<open>delete_message\<close> has one branch for each scope; the three branches are the functions
  \<open>delete_personal\<close>, \<open>delete_in_chat\<close> and \<open>delete_in_channel\<close> here. In the personal
  scope a \<^verbatim>\<open>peer_id\<close> for which \<^verbatim>\<open>int\<close> raises \<^verbatim>\<open>TypeError\<close> or \<^verbatim>\<open>ValueError\<close> becomes
  \<^verbatim>\<open>None\<close> (\<open>peer_id_of\<close>), the row is deleted if the user sent it, and the notice goes to
  the pair room when there is a peer id and to everyone otherwise. Formatting the room
  name raises for an integer of more than 4300 digits, after the deletion.
\<close>

definition peer_id_of :: "payload \<Rightarrow> pyerr + int option" where
  "peer_id_of data =
     (case py_int (dget data ''peer_id'') of
        Inl e \<Rightarrow> if e \<in> set [TypeError, ValueError] then Inr None else Inl e
      | Inr p \<Rightarrow> Inr (Some p))"

definition delete_personal :: "int \<Rightarrow> int \<Rightarrow> payload \<Rightarrow> database \<Rightarrow> reaction" where
  "delete_personal msg_id user_id data db =
     (case peer_id_of data of
        Inl e \<Rightarrow> raised e db
      | Inr peer_id \<Rightarrow>
          (case delete_personal_message msg_id user_id db of
             Inl e \<Rightarrow> raised e db
           | Inr (ok, db') \<Rightarrow>
               if ok then
                 (case peer_id of
                    None \<Rightarrow> (Returned, db', [(Everyone, Message_deleted msg_id)])
                  | Some p \<Rightarrow>
                      if p \<noteq> 0 then
                        (if str_raises user_id \<or> str_raises p then raised ValueError db'
                         else (Returned, db',
                               [(Room (pair_room user_id p), Message_deleted msg_id)]))
                      else (Returned, db', [(Everyone, Message_deleted msg_id)]))
               else (Returned, db', [])))"

definition delete_in_chat :: "int \<Rightarrow> int \<Rightarrow> payload \<Rightarrow> database \<Rightarrow> reaction" where
  "delete_in_chat msg_id user_id data db =
     (case py_int (dget data ''chat_id'') of
        Inl e \<Rightarrow> except_return [TypeError, ValueError] e db
      | Inr chat_id_int \<Rightarrow>
          (case delete_chat_message msg_id user_id db of
             Inl e \<Rightarrow> raised e db
           | Inr (ok, db') \<Rightarrow>
               if ok then
                 (if str_raises chat_id_int then raised ValueError db'
                  else (Returned, db',
                        [(Room (chat_room chat_id_int), Message_deleted msg_id)]))
               else (Returned, db', [])))"

definition delete_in_channel :: "int \<Rightarrow> int \<Rightarrow> payload \<Rightarrow> database \<Rightarrow> reaction" where
  "delete_in_channel msg_id user_id data db =
     (case py_int (dget data ''channel_id'') of
        Inl e \<Rightarrow> except_return [TypeError, ValueError] e db
      | Inr channel_id_int \<Rightarrow>
          (case delete_channel_message msg_id user_id db of
             Inl e \<Rightarrow> raised e db
           | Inr (ok, db') \<Rightarrow>
               if ok then
                 (if str_raises channel_id_int then raised ValueError db'
                  else (Returned, db',
                        [(Room (channel_room channel_id_int), Message_deleted msg_id)]))
               else (Returned, db', [])))"

definition delete_message :: "string option \<Rightarrow> payload \<Rightarrow> database \<Rightarrow> reaction" where
  "delete_message username data db =
     (if no_username username then dropped db
      else
        (case get_user_id username db of
           None \<Rightarrow> dropped db
         | Some user_id \<Rightarrow>
             if user_id = 0 then dropped db
             else
               (let scope = dget data ''scope''
                in (case py_int (py_or (dget data ''id'') (dget data ''message_id'')) of
                      Inl e \<Rightarrow> except_return [TypeError, ValueError] e db
                    | Inr msg_id \<Rightarrow>
                        if scope = JStr ''personal'' then delete_personal msg_id user_id data db
                        else if scope = JStr ''chat'' then delete_in_chat msg_id user_id data db
                        else if scope = JStr ''channel'' then
                          delete_in_channel msg_id user_id data db
                        else dropped db))))"

section \<open>Notions of the specification\<close>

text \<open>
  The specification speaks of ids as numbers. A row has the id and the sender the
  specification names when its columns, read as integers, are these numbers.
\<close>

definition sent_by :: "int \<Rightarrow> int \<Rightarrow> message_row \<Rightarrow> bool" where
  "sent_by message_id owner_id r =
     (sint (row_id r) = message_id \<and> map_option sint (sender_id r) = Some owner_id)"

text \<open>The user is a ChatMembership of the chat: some row of the table pairs the two.\<close>

definition chat_membership :: "int \<Rightarrow> int \<Rightarrow> database \<Rightarrow> bool" where
  "chat_membership chat_id user_id db =
     (\<exists>r\<in>set (chat_members db).
        map_option sint (cm_chat_id r) = Some chat_id
        \<and> map_option sint (cm_user_id r) = Some user_id)"

text \<open>The user is the admin of the channel: a row of that channel names the user.\<close>

definition channel_admin :: "int \<Rightarrow> int \<Rightarrow> database \<Rightarrow> bool" where
  "channel_admin user_id channel_id db =
     (\<exists>r\<in>set (channels db).
        sint (ch_id r) = channel_id \<and> map_option sint (ch_admin_id r) = Some user_id)"

section \<open>An example store\<close>

text \<open>
  Users A, B and C with the ids 1, 2 and 3; A is a member of chat 7, C the admin of
  channel 9; one message in each log.
\<close>

definition example_db :: database where
  "example_db =
     \<lparr>users = [\<lparr>u_id = 1, u_name = ''A''\<rparr>, \<lparr>u_id = 2, u_name = ''B''\<rparr>,
               \<lparr>u_id = 3, u_name = ''C''\<rparr>],
      chat_members = [\<lparr>cm_chat_id = Some 7, cm_user_id = Some 1\<rparr>],
      channels = [\<lparr>ch_id = 9, ch_admin_id = Some 3\<rparr>],
      personal_messages =
        [\<lparr>row_id = 5, sender_id = Some 1, target_id = Some 2,
          content = Text ''hello'', timestamp = ''2024-01-01 10:00:00''\<rparr>],
      chat_messages =
        [\<lparr>row_id = 4, sender_id = Some 1, target_id = Some 7,
          content = Text ''welcome'', timestamp = ''2024-01-01 10:00:00''\<rparr>],
      channel_messages =
        [\<lparr>row_id = 6, sender_id = Some 3, target_id = Some 9,
          content = Text ''announce'', timestamp = ''2024-01-01 10:00:00''\<rparr>]\<rparr>"

text \<open>Runtime states: nobody connected, and user A connected twice (connections 1 and 2).\<close>

definition no_connections :: runtime where
  "no_connections = \<lparr>online_user_ids = {}, rooms = {}\<rparr>"

definition two_connections :: runtime where
  "two_connections =
     \<lparr>online_user_ids = {1}, rooms = {(1, ''user:1''), (2, ''user:1'')}\<rparr>"

section \<open>Properties\<close>

subsection \<open>Integers of the store and of Python\<close>

lemma fits_sint: "fits_int64 (sint (w :: sqlint))"
  using sint_range_size [of w] by (simp add: fits_int64_def word_size)

lemma sint_bind: "fits_int64 i \<Longrightarrow> sint (word_of_int i :: sqlint) = i"
  by (simp add: fits_int64_def sint_sbintrunc' signed_take_bit_int_eq_self)

lemma bind_eq_iff: "fits_int64 i \<Longrightarrow> (w = (word_of_int i :: sqlint)) = (sint w = i)"
  using sint_bind by force

lemma py_int_raises:
  "py_int v = Inl e \<Longrightarrow> e = TypeError \<or> e = ValueError \<or> e = OverflowError"
proof (cases v)
  case (JFloat f)
  then show "py_int v = Inl e \<Longrightarrow> ?thesis" by (cases f) auto
qed (auto split: option.splits)

subsection \<open>The canonical pair room\<close>

text \<open>
  C8. For all user ids \<open>u\<close> and \<open>v\<close>, the canonical pair room derived from \<open>(u, v)\<close> is the
  one derived from \<open>(v, u)\<close>: the derivation sorts the two ids. The statement holds for
  every pair, also for \<open>u = v\<close>.
\<close>

theorem pair_room_commute: "pair_room u v = pair_room v u"
  by (cases "u \<le> v"; cases "v \<le> u"; simp add: pair_room_def)

subsection \<open>Deleting a message of one's own\<close>

lemma owned_by_sent_by:
  "fits_int64 m \<Longrightarrow> fits_int64 ow \<Longrightarrow> owned_by m ow r = sent_by m ow r"
  by (cases "sender_id r") (auto simp: owned_by_def sent_by_def sint_bind)

lemma sent_by_fits: "sent_by m ow r \<Longrightarrow> fits_int64 m \<and> fits_int64 ow"
  using fits_sint by (auto simp: sent_by_def)

lemma delete_rows_overflow:
  "\<not> (fits_int64 m \<and> fits_int64 ow) \<Longrightarrow> delete_rows m ow rows = Inl OverflowError"
  by (simp add: delete_rows_def)

lemma delete_rows_result:
  "fits_int64 m \<Longrightarrow> fits_int64 ow \<Longrightarrow>
   delete_rows m ow rows =
     Inr (\<exists>r\<in>set rows. sent_by m ow r, filter (\<lambda>r. \<not> sent_by m ow r) rows)"
  by (auto simp: delete_rows_def owned_by_sent_by filter_empty_conv
                 length_greater_0_conv [symmetric]
           simp del: length_greater_0_conv)

lemma delete_rows_true_iff:
  "(\<exists>rows'. delete_rows m ow rows = Inr (True, rows')) \<longleftrightarrow> (\<exists>r\<in>set rows. sent_by m ow r)"
proof (cases "fits_int64 m \<and> fits_int64 ow")
  case True
  then show ?thesis by (simp add: delete_rows_result)
next
  case False
  then have "delete_rows m ow rows = Inl OverflowError" by (rule delete_rows_overflow)
  moreover have "\<not> (\<exists>r\<in>set rows. sent_by m ow r)" using False sent_by_fits by blast
  ultimately show ?thesis by simp
qed

lemma delete_rows_returns:
  assumes "delete_rows m ow rows = Inr (ok, rows')"
  shows "rows' = filter (\<lambda>r. \<not> sent_by m ow r) rows \<and> (\<not> ok \<longrightarrow> rows' = rows)"
proof -
  from assms have f: "fits_int64 m" "fits_int64 ow"
    by (auto simp: delete_rows_def split: if_splits)
  with assms have ok: "ok = (\<exists>r\<in>set rows. sent_by m ow r)"
    and rows': "rows' = filter (\<lambda>r. \<not> sent_by m ow r) rows"
    by (simp_all add: delete_rows_result)
  from ok have "\<not> ok \<Longrightarrow> filter (\<lambda>r. \<not> sent_by m ow r) rows = rows"
    by (simp add: filter_id_conv)
  with rows' show ?thesis by simp
qed

lemma delete_rows_total:
  "fits_int64 m \<Longrightarrow> fits_int64 ow \<Longrightarrow> \<exists>ok rows'. delete_rows m ow rows = Inr (ok, rows')"
  by (simp add: delete_rows_result)

lemma delete_rows_keeps:
  assumes "delete_rows m ow rows = Inr (ok, rows')"
    and "r \<in> set rows" and "map_option sint (sender_id r) \<noteq> Some ow"
  shows "r \<in> set rows'"
  using delete_rows_returns [OF assms(1)] assms(2,3) by (simp add: sent_by_def)

lemma delete_personal_message_spec:
  "((\<exists>db'. delete_personal_message m ow db = Inr (True, db'))
      \<longleftrightarrow> (\<exists>r\<in>set (personal_messages db). sent_by m ow r))
   \<and> (\<forall>ok db'. delete_personal_message m ow db = Inr (ok, db') \<longrightarrow>
          db' = db\<lparr>personal_messages := filter (\<lambda>r. \<not> sent_by m ow r) (personal_messages db)\<rparr>
          \<and> (\<forall>r\<in>set (personal_messages db).
                map_option sint (sender_id r) \<noteq> Some ow \<longrightarrow> r \<in> set (personal_messages db'))
          \<and> (\<not> ok \<longrightarrow> db' = db))
   \<and> (fits_int64 m \<and> fits_int64 ow \<longrightarrow>
          (\<exists>ok db'. delete_personal_message m ow db = Inr (ok, db')))"
proof (intro conjI allI impI)
  show "(\<exists>db'. delete_personal_message m ow db = Inr (True, db'))
      \<longleftrightarrow> (\<exists>r\<in>set (personal_messages db). sent_by m ow r)"
    using delete_rows_true_iff [of m ow "personal_messages db"]
    by (auto simp: delete_personal_message_def split: sum.splits)
next
  fix ok db' assume "delete_personal_message m ow db = Inr (ok, db')"
  then obtain rows' where d: "delete_rows m ow (personal_messages db) = Inr (ok, rows')"
    and db': "db' = db\<lparr>personal_messages := rows'\<rparr>"
    by (auto simp: delete_personal_message_def split: sum.splits)
  note r = delete_rows_returns [OF d]
  show "db' = db\<lparr>personal_messages := filter (\<lambda>r. \<not> sent_by m ow r) (personal_messages db)\<rparr>"
    using r db' by simp
  show "db' = db" if "\<not> ok"
  proof -
    from r that have "rows' = personal_messages db" by blast
    with db' show ?thesis by simp
  qed
  show "\<forall>r\<in>set (personal_messages db).
          map_option sint (sender_id r) \<noteq> Some ow \<longrightarrow> r \<in> set (personal_messages db')"
    using delete_rows_keeps [OF d] db' by simp
next
  assume "fits_int64 m \<and> fits_int64 ow"
  then show "\<exists>ok db'. delete_personal_message m ow db = Inr (ok, db')"
    using delete_rows_total [of m ow "personal_messages db"]
    by (auto simp: delete_personal_message_def)
qed

lemma delete_chat_message_spec:
  "((\<exists>db'. delete_chat_message m ow db = Inr (True, db'))
      \<longleftrightarrow> (\<exists>r\<in>set (chat_messages db). sent_by m ow r))
   \<and> (\<forall>ok db'. delete_chat_message m ow db = Inr (ok, db') \<longrightarrow>
          db' = db\<lparr>chat_messages := filter (\<lambda>r. \<not> sent_by m ow r) (chat_messages db)\<rparr>
          \<and> (\<forall>r\<in>set (chat_messages db).
                map_option sint (sender_id r) \<noteq> Some ow \<longrightarrow> r \<in> set (chat_messages db'))
          \<and> (\<not> ok \<longrightarrow> db' = db))
   \<and> (fits_int64 m \<and> fits_int64 ow \<longrightarrow>
          (\<exists>ok db'. delete_chat_message m ow db = Inr (ok, db')))"
proof (intro conjI allI impI)
  show "(\<exists>db'. delete_chat_message m ow db = Inr (True, db'))
      \<longleftrightarrow> (\<exists>r\<in>set (chat_messages db). sent_by m ow r)"
    using delete_rows_true_iff [of m ow "chat_messages db"]
    by (auto simp: delete_chat_message_def split: sum.splits)
next
  fix ok db' assume "delete_chat_message m ow db = Inr (ok, db')"
  then obtain rows' where d: "delete_rows m ow (chat_messages db) = Inr (ok, rows')"
    and db': "db' = db\<lparr>chat_messages := rows'\<rparr>"
    by (auto simp: delete_chat_message_def split: sum.splits)
  note r = delete_rows_returns [OF d]
  show "db' = db\<lparr>chat_messages := filter (\<lambda>r. \<not> sent_by m ow r) (chat_messages db)\<rparr>"
    using r db' by simp
  show "db' = db" if "\<not> ok"
  proof -
    from r that have "rows' = chat_messages db" by blast
    with db' show ?thesis by simp
  qed
  show "\<forall>r\<in>set (chat_messages db).
          map_option sint (sender_id r) \<noteq> Some ow \<longrightarrow> r \<in> set (chat_messages db')"
    using delete_rows_keeps [OF d] db' by simp
next
  assume "fits_int64 m \<and> fits_int64 ow"
  then show "\<exists>ok db'. delete_chat_message m ow db = Inr (ok, db')"
    using delete_rows_total [of m ow "chat_messages db"]
    by (auto simp: delete_chat_message_def)
qed

lemma delete_channel_message_spec:
  "((\<exists>db'. delete_channel_message m ow db = Inr (True, db'))
      \<longleftrightarrow> (\<exists>r\<in>set (channel_messages db). sent_by m ow r))
   \<and> (\<forall>ok db'. delete_channel_message m ow db = Inr (ok, db') \<longrightarrow>
          db' = db\<lparr>channel_messages := filter (\<lambda>r. \<not> sent_by m ow r) (channel_messages db)\<rparr>
          \<and> (\<forall>r\<in>set (channel_messages db).
                map_option sint (sender_id r) \<noteq> Some ow \<longrightarrow> r \<in> set (channel_messages db'))
          \<and> (\<not> ok \<longrightarrow> db' = db))
   \<and> (fits_int64 m \<and> fits_int64 ow \<longrightarrow>
          (\<exists>ok db'. delete_channel_message m ow db = Inr (ok, db')))"
proof (intro conjI allI impI)
  show "(\<exists>db'. delete_channel_message m ow db = Inr (True, db'))
      \<longleftrightarrow> (\<exists>r\<in>set (channel_messages db). sent_by m ow r)"
    using delete_rows_true_iff [of m ow "channel_messages db"]
    by (auto simp: delete_channel_message_def split: sum.splits)
next
  fix ok db' assume "delete_channel_message m ow db = Inr (ok, db')"
  then obtain rows' where d: "delete_rows m ow (channel_messages db) = Inr (ok, rows')"
    and db': "db' = db\<lparr>channel_messages := rows'\<rparr>"
    by (auto simp: delete_channel_message_def split: sum.splits)
  note r = delete_rows_returns [OF d]
  show "db' = db\<lparr>channel_messages := filter (\<lambda>r. \<not> sent_by m ow r) (channel_messages db)\<rparr>"
    using r db' by simp
  show "db' = db" if "\<not> ok"
  proof -
    from r that have "rows' = channel_messages db" by blast
    with db' show ?thesis by simp
  qed
  show "\<forall>r\<in>set (channel_messages db).
          map_option sint (sender_id r) \<noteq> Some ow \<longrightarrow> r \<in> set (channel_messages db')"
    using delete_rows_keeps [OF d] db' by simp
next
  assume "fits_int64 m \<and> fits_int64 ow"
  then show "\<exists>ok db'. delete_channel_message m ow db = Inr (ok, db')"
    using delete_rows_total [of m ow "channel_messages db"]
    by (auto simp: delete_channel_message_def)
qed

text \<open>
  C5. For every message id and owner id, each of \<^verbatim>\<open>delete_personal_message\<close>,
  \<^verbatim>\<open>delete_chat_message\<close> and \<^verbatim>\<open>delete_channel_message\<close> returns true if and only if the
  table had a row with that id whose sender is the owner id. When it returns, exactly
  the rows with that id and that sender are gone and every other table is as before, so
  a row of another sender is never deleted, and the store is unchanged when the result
  is false. It returns for all ids in the 64-bit range of the store (outside it, binding
  the parameter raises).
\<close>

theorem delete_message_by_owner:
  "(((\<exists>db'. delete_personal_message m ow db = Inr (True, db'))
      \<longleftrightarrow> (\<exists>r\<in>set (personal_messages db). sent_by m ow r))
   \<and> (\<forall>ok db'. delete_personal_message m ow db = Inr (ok, db') \<longrightarrow>
          db' = db\<lparr>personal_messages := filter (\<lambda>r. \<not> sent_by m ow r) (personal_messages db)\<rparr>
          \<and> (\<forall>r\<in>set (personal_messages db).
                map_option sint (sender_id r) \<noteq> Some ow \<longrightarrow> r \<in> set (personal_messages db'))
          \<and> (\<not> ok \<longrightarrow> db' = db))
   \<and> (fits_int64 m \<and> fits_int64 ow \<longrightarrow>
          (\<exists>ok db'. delete_personal_message m ow db = Inr (ok, db'))))
   \<and> (((\<exists>db'. delete_chat_message m ow db = Inr (True, db'))
      \<longleftrightarrow> (\<exists>r\<in>set (chat_messages db). sent_by m ow r))
   \<and> (\<forall>ok db'. delete_chat_message m ow db = Inr (ok, db') \<longrightarrow>
          db' = db\<lparr>chat_messages := filter (\<lambda>r. \<not> sent_by m ow r) (chat_messages db)\<rparr>
          \<and> (\<forall>r\<in>set (chat_messages db).
                map_option sint (sender_id r) \<noteq> Some ow \<longrightarrow> r \<in> set (chat_messages db'))
          \<and> (\<not> ok \<longrightarrow> db' = db))
   \<and> (fits_int64 m \<and> fits_int64 ow \<longrightarrow>
          (\<exists>ok db'. delete_chat_message m ow db = Inr (ok, db'))))
   \<and> (((\<exists>db'. delete_channel_message m ow db = Inr (True, db'))
      \<longleftrightarrow> (\<exists>r\<in>set (channel_messages db). sent_by m ow r))
   \<and> (\<forall>ok db'. delete_channel_message m ow db = Inr (ok, db') \<longrightarrow>
          db' = db\<lparr>channel_messages := filter (\<lambda>r. \<not> sent_by m ow r) (channel_messages db)\<rparr>
          \<and> (\<forall>r\<in>set (channel_messages db).
                map_option sint (sender_id r) \<noteq> Some ow \<longrightarrow> r \<in> set (channel_messages db'))
          \<and> (\<not> ok \<longrightarrow> db' = db))
   \<and> (fits_int64 m \<and> fits_int64 ow \<longrightarrow>
          (\<exists>ok db'. delete_channel_message m ow db = Inr (ok, db'))))"
  by (rule conjI, rule delete_personal_message_spec,
      rule conjI, rule delete_chat_message_spec, rule delete_channel_message_spec)

theorem delete_message_by_owner_witness:
  "(\<exists>r\<in>set (personal_messages example_db). sent_by 5 1 r)
   \<and> delete_personal_message 5 1 example_db
       = Inr (True, example_db\<lparr>personal_messages := []\<rparr>)
   \<and> \<not> (\<exists>r\<in>set (chat_messages example_db). sent_by 5 1 r)
   \<and> fits_int64 5 \<and> fits_int64 1
   \<and> delete_chat_message 5 1 example_db = Inr (False, example_db)"
proof -
  note t = delete_message_by_owner [of 5 1 example_db]
  note p_iff = t [THEN conjunct1, THEN conjunct1]
  note p_ret = t [THEN conjunct1, THEN conjunct2, THEN conjunct1, rule_format]
  note c_iff = t [THEN conjunct2, THEN conjunct1, THEN conjunct1]
  note c_ret = t [THEN conjunct2, THEN conjunct1, THEN conjunct2, THEN conjunct1, rule_format]
  note c_tot = t [THEN conjunct2, THEN conjunct1, THEN conjunct2, THEN conjunct2, rule_format]
  have own: "\<exists>r\<in>set (personal_messages example_db). sent_by 5 1 r"
    by (simp add: example_db_def sent_by_def)
  have none: "\<not> (\<exists>r\<in>set (chat_messages example_db). sent_by 5 1 r)"
    by (simp add: example_db_def sent_by_def)
  have fits: "fits_int64 5 \<and> fits_int64 1"
    by (simp add: fits_int64_def)
  from p_iff own obtain db' where p: "delete_personal_message 5 1 example_db = Inr (True, db')"
    by blast
  from p_ret [OF p] have "db' = example_db\<lparr>personal_messages :=
      filter (\<lambda>r. \<not> sent_by 5 1 r) (personal_messages example_db)\<rparr>"
    by (rule conjunct1)
  then have p': "db' = example_db\<lparr>personal_messages := []\<rparr>"
    by (simp add: example_db_def sent_by_def)
  from c_tot [OF fits] obtain ok db''
    where c: "delete_chat_message 5 1 example_db = Inr (ok, db'')"
    by blast
  have nok: "\<not> ok"
  proof
    assume ok
    with c have "\<exists>d. delete_chat_message 5 1 example_db = Inr (True, d)" by auto
    with c_iff none show False by blast
  qed
  from c_ret [OF c] nok have "db'' = example_db" by blast
  with c nok have c': "delete_chat_message 5 1 example_db = Inr (False, example_db)"
    by simp
  from p p' have p'': "delete_personal_message 5 1 example_db
       = Inr (True, example_db\<lparr>personal_messages := []\<rparr>)" by simp
  from own p'' none fits c' show ?thesis by blast
qed

subsection \<open>Connection and presence\<close>

lemma get_user_id_example:
  "get_user_id (Some ''A'') example_db = Some 1"
  "get_user_id (Some ''B'') example_db = Some 2"
  "get_user_id (Some ''C'') example_db = Some 3"
  "get_user_id (Some ''Z'') example_db = None"
  by (simp_all add: get_user_id_def example_db_def)

lemma user_room_1: "user_room 1 = ''user:1''"
  by (simp add: user_room_def py_str_def digit_char_def)

text \<open>
  C10. For every connect event with a valid session whose user name resolves to no user
  id, the connection is accepted and the system notice is emitted to it, while the
  Presence Registry and the rooms stay as they are and no presence event is emitted.
\<close>

theorem connect_unknown_user:
  assumes "username = Some name" and "name \<noteq> []"
    and "no_user_id (get_user_id username db)"
  shows "handle_connect sid username db rt
           = (True, rt, [(Sender, System (name @ '' connected''))])"
  using assms by (simp add: handle_connect_def no_user_id_def split: option.splits)

theorem connect_unknown_user_witness:
  "no_user_id (get_user_id (Some ''Z'') example_db)
   \<and> handle_connect 7 (Some ''Z'') example_db two_connections
       = (True, two_connections, [(Sender, System ''Z connected'')])"
proof -
  have h: "no_user_id (get_user_id (Some ''Z'') example_db)"
    by (simp add: get_user_id_example no_user_id_def)
  have "handle_connect 7 (Some ''Z'') example_db two_connections
       = (True, two_connections, [(Sender, System (''Z'' @ '' connected''))])"
    by (rule connect_unknown_user [OF refl _ h]) simp
  with h show ?thesis by simp
qed

text \<open>
  C1, as the code has it. For every user with two simultaneous connections, the Presence
  Registry holds the user once while both are open; the first disconnect of either
  connection removes the user from the registry and emits presence-offline although the
  other connection is still open and still in the user's presence room, and the second
  disconnect leaves the registry unchanged and emits nothing.
\<close>

theorem presence_first_disconnect:
  assumes "username = Some name" and "name \<noteq> []"
    and "get_user_id username db = Some u" and "u \<noteq> 0"
  shows "\<exists>rt1 rt2 rt3 e1 e2.
           handle_connect s1 username db rt = (True, rt1, e1)
         \<and> handle_connect s2 username db rt1 = (True, rt2, e2)
         \<and> online_user_ids rt1 = insert u (online_user_ids rt)
         \<and> online_user_ids rt2 = online_user_ids rt1
         \<and> (s2, user_room u) \<in> rooms rt2
         \<and> handle_disconnect s1 username db rt2 = (rt3, [(Everyone, Presence u False)])
         \<and> online_user_ids rt3 = online_user_ids rt - {u}
         \<and> rooms rt3 = rooms rt2
         \<and> handle_disconnect s2 username db rt3 = (rt3, [])"
  using assms
  by (simp add: handle_connect_def handle_disconnect_def no_username_def)

theorem presence_first_disconnect_witness:
  "get_user_id (Some ''A'') example_db = Some 1
   \<and> (\<exists>rt1 rt2 rt3 e1 e2.
           handle_connect 1 (Some ''A'') example_db no_connections = (True, rt1, e1)
         \<and> handle_connect 2 (Some ''A'') example_db rt1 = (True, rt2, e2)
         \<and> online_user_ids rt1 = insert 1 (online_user_ids no_connections)
         \<and> online_user_ids rt2 = online_user_ids rt1
         \<and> (2, user_room 1) \<in> rooms rt2
         \<and> handle_disconnect 1 (Some ''A'') example_db rt2
             = (rt3, [(Everyone, Presence 1 False)])
         \<and> online_user_ids rt3 = online_user_ids no_connections - {1}
         \<and> rooms rt3 = rooms rt2
         \<and> handle_disconnect 2 (Some ''A'') example_db rt3 = (rt3, []))"
proof -
  have h: "get_user_id (Some ''A'') example_db = Some 1" by (rule get_user_id_example)
  have n: "''A'' \<noteq> []" "(1::int) \<noteq> 0" by simp_all
  note t = presence_first_disconnect [OF refl n(1) h n(2), of 1 no_connections 2]
  from h t show ?thesis by (rule conjI)
qed

text \<open>
  User A connects twice and closes the first connection: the registry loses A while the
  second connection is open.
\<close>

theorem presence_one_disconnect_counterexample:
  "handle_connect 1 (Some ''A'') example_db no_connections
     = (True, \<lparr>online_user_ids = {1}, rooms = {(1, ''user:1'')}\<rparr>,
        [(Everyone, Presence 1 True), (Sender, System ''A connected'')])
   \<and> handle_connect 2 (Some ''A'') example_db \<lparr>online_user_ids = {1}, rooms = {(1, ''user:1'')}\<rparr>
     = (True, two_connections,
        [(Everyone, Presence 1 True), (Sender, System ''A connected'')])
   \<and> handle_disconnect 1 (Some ''A'') example_db two_connections
     = (\<lparr>online_user_ids = {}, rooms = {(1, ''user:1''), (2, ''user:1'')}\<rparr>,
        [(Everyone, Presence 1 False)])
   \<and> online_user_ids two_connections \<noteq> {}"
  by (simp add: handle_connect_def handle_disconnect_def no_username_def get_user_id_example
        user_room_1 no_connections_def two_connections_def insert_commute)

subsection \<open>Messages to chats and channels\<close>

lemma opt_bind_eq_iff:
  "fits_int64 i \<Longrightarrow> (x = Some (word_of_int i :: sqlint)) = (map_option sint x = Some i)"
  by (cases x) (auto simp: sint_bind)

lemma is_user_chat_member_Inr:
  assumes "is_user_chat_member c u db = Inr b"
  shows "b = chat_membership c u db"
proof -
  from assms have f: "fits_int64 c" "fits_int64 u"
    by (auto simp: is_user_chat_member_def split: if_splits)
  with assms show ?thesis
    by (auto simp: is_user_chat_member_def chat_membership_def find_None_iff opt_bind_eq_iff)
qed

lemma is_user_chat_member_Inl:
  "is_user_chat_member c u db = Inl e \<Longrightarrow> e = OverflowError"
  by (auto simp: is_user_chat_member_def split: if_splits)

lemma is_user_channel_admin_Inr:
  assumes "is_user_channel_admin u c db = Inr True"
  shows "channel_admin u c db"
proof -
  from assms have f: "fits_int64 c"
    by (auto simp: is_user_channel_admin_def split: if_splits)
  with assms obtain r where "find (\<lambda>r. ch_id r = word_of_int c) (channels db) = Some r"
    and a: "map_option sint (ch_admin_id r) = Some u"
    by (auto simp: is_user_channel_admin_def split: option.splits)
  then have "r \<in> set (channels db)" and "ch_id r = word_of_int c"
    by (auto simp: find_Some_iff)
  with f a show ?thesis
    by (auto simp: channel_admin_def bind_eq_iff)
qed

lemma is_user_channel_admin_Inl:
  "is_user_channel_admin u c db = Inl e \<Longrightarrow> e = OverflowError"
  by (auto simp: is_user_channel_admin_def split: if_splits)


lemma except_return_py_int:
  "py_int v = Inl e \<Longrightarrow>
   except_return [TypeError, ValueError] e db = dropped db
   \<or> except_return [TypeError, ValueError] e db = raised OverflowError db"
  by (auto simp: except_return_def dest: py_int_raises)

lemma chat_message_non_member:
  assumes "\<And>u c. get_user_id username db = Some u \<Longrightarrow> py_int (dget data ''chat_id'') = Inr c
             \<Longrightarrow> \<not> chat_membership c u db"
  shows "chat_message username data now probe db = dropped db
         \<or> chat_message username data now probe db = raised OverflowError db"
proof (cases "get_user_id username db")
  case None
  then show ?thesis by (simp add: chat_message_def no_user_id_def)
next
  case (Some u)
  show ?thesis
  proof (cases "py_int (dget data ''chat_id'')")
    case (Inl e)
    with Some except_return_py_int [OF Inl, of db] show ?thesis
      by (auto simp: chat_message_def Let_def)
  next
    case (Inr c)
    with Some assms have nm: "\<not> chat_membership c u db" by blast
    show ?thesis
    proof (cases "is_user_chat_member c u db")
      case (Inl e)
      then have "e = OverflowError" by (rule is_user_chat_member_Inl)
      with Inl Some Inr show ?thesis
        by (simp add: chat_message_def Let_def)
    next
      case (Inr b)
      with nm have "\<not> b" using is_user_chat_member_Inr by blast
      with Inr Some \<open>py_int (dget data ''chat_id'') = Inr c\<close> show ?thesis
        by (simp add: chat_message_def Let_def)
    qed
  qed
qed

lemma channel_message_non_admin:
  assumes "\<And>u c. get_user_id username db = Some u \<Longrightarrow> py_int (dget data ''channel_id'') = Inr c
             \<Longrightarrow> \<not> channel_admin u c db"
  shows "channel_message username data now probe db = dropped db
         \<or> channel_message username data now probe db = raised OverflowError db"
proof (cases "get_user_id username db")
  case None
  then show ?thesis by (simp add: channel_message_def no_user_id_def)
next
  case (Some u)
  show ?thesis
  proof (cases "py_int (dget data ''channel_id'')")
    case (Inl e)
    with Some except_return_py_int [OF Inl, of db] show ?thesis
      by (auto simp: channel_message_def Let_def)
  next
    case (Inr c)
    with Some assms have nm: "\<not> channel_admin u c db" by blast
    show ?thesis
    proof (cases "is_user_channel_admin u c db")
      case (Inl e)
      then have "e = OverflowError" by (rule is_user_channel_admin_Inl)
      with Inl Some Inr show ?thesis
        by (simp add: channel_message_def Let_def)
    next
      case (Inr b)
      with nm have "\<not> b" using is_user_channel_admin_Inr by (cases b) auto
      with Inr Some \<open>py_int (dget data ''channel_id'') = Inr c\<close> show ?thesis
        by (simp add: channel_message_def Let_def)
    qed
  qed
qed

text \<open>
  C4. Every \<^verbatim>\<open>chat_message\<close> event whose sender is not a ChatMembership of the named chat,
  and every \<^verbatim>\<open>channel_message\<close> event whose sender is not the admin of the named
  channel, leaves the store as it is and emits nothing. The handler returns, or binding
  an id beyond 64 bits raises before anything is written.
\<close>

theorem message_from_outsider_dropped:
  "((\<forall>u c. get_user_id username db = Some u \<longrightarrow> py_int (dget data ''chat_id'') = Inr c
            \<longrightarrow> \<not> chat_membership c u db)
      \<longrightarrow> chat_message username data now probe db = (Returned, db, [])
          \<or> chat_message username data now probe db = (Raised OverflowError, db, []))
   \<and> ((\<forall>u c. get_user_id username db = Some u \<longrightarrow> py_int (dget data ''channel_id'') = Inr c
            \<longrightarrow> \<not> channel_admin u c db)
      \<longrightarrow> channel_message username data now probe db = (Returned, db, [])
          \<or> channel_message username data now probe db = (Raised OverflowError, db, []))"
proof (intro conjI impI)
  assume "\<forall>u c. get_user_id username db = Some u \<longrightarrow> py_int (dget data ''chat_id'') = Inr c
            \<longrightarrow> \<not> chat_membership c u db"
  then show "chat_message username data now probe db = (Returned, db, [])
          \<or> chat_message username data now probe db = (Raised OverflowError, db, [])"
    using chat_message_non_member [of username db data now probe]
    by (simp add: dropped_def raised_def)
next
  assume "\<forall>u c. get_user_id username db = Some u \<longrightarrow> py_int (dget data ''channel_id'') = Inr c
            \<longrightarrow> \<not> channel_admin u c db"
  then show "channel_message username data now probe db = (Returned, db, [])
          \<or> channel_message username data now probe db = (Raised OverflowError, db, [])"
    using channel_message_non_admin [of username db data now probe]
    by (simp add: dropped_def raised_def)
qed


theorem message_from_outsider_dropped_witness:
  "get_user_id (Some ''B'') example_db = Some 2
   \<and> py_int (dget [''chat_id'' \<mapsto> JInt 7, ''text'' \<mapsto> JStr ''x''] ''chat_id'') = Inr 7
   \<and> \<not> chat_membership 7 2 example_db
   \<and> (chat_message (Some ''B'') [''chat_id'' \<mapsto> JInt 7, ''text'' \<mapsto> JStr ''x'']
          ''2024-01-01 10:05:00'' None example_db = (Returned, example_db, [])
        \<or> chat_message (Some ''B'') [''chat_id'' \<mapsto> JInt 7, ''text'' \<mapsto> JStr ''x'']
          ''2024-01-01 10:05:00'' None example_db = (Raised OverflowError, example_db, []))
   \<and> get_user_id (Some ''A'') example_db = Some 1
   \<and> py_int (dget [''channel_id'' \<mapsto> JStr ''9'', ''text'' \<mapsto> JStr ''x''] ''channel_id'')
       = Inr 9
   \<and> \<not> channel_admin 1 9 example_db
   \<and> (channel_message (Some ''A'') [''channel_id'' \<mapsto> JStr ''9'', ''text'' \<mapsto> JStr ''x'']
          ''2024-01-01 10:05:00'' None example_db = (Returned, example_db, [])
        \<or> channel_message (Some ''A'') [''channel_id'' \<mapsto> JStr ''9'', ''text'' \<mapsto> JStr ''x'']
          ''2024-01-01 10:05:00'' None example_db = (Raised OverflowError, example_db, []))"
proof -
  let ?d1 = "[''chat_id'' \<mapsto> JInt 7, ''text'' \<mapsto> JStr ''x'']"
  let ?d2 = "[''channel_id'' \<mapsto> JStr ''9'', ''text'' \<mapsto> JStr ''x'']"
  note t = message_from_outsider_dropped
  have b: "get_user_id (Some ''B'') example_db = Some 2"
    and a: "get_user_id (Some ''A'') example_db = Some 1"
    by (rule get_user_id_example)+
  have c1: "py_int (dget ?d1 ''chat_id'') = Inr 7"
    by (simp add: dget_def)
  have c2: "py_int (dget ?d2 ''channel_id'') = Inr 9"
    by (simp add: dget_def int_of_str_def strip_def py_isspace_def unsigned_literal_def
          py_isdigit_def digit_val_def int_max_str_digits_def)
  have m: "\<not> chat_membership 7 2 example_db"
    by (simp add: chat_membership_def example_db_def)
  have ad: "\<not> channel_admin 1 9 example_db"
    by (simp add: channel_admin_def example_db_def)
  have h1: "\<forall>u c. get_user_id (Some ''B'') example_db = Some u
              \<longrightarrow> py_int (dget ?d1 ''chat_id'') = Inr c \<longrightarrow> \<not> chat_membership c u example_db"
    using b c1 m by simp
  have h2: "\<forall>u c. get_user_id (Some ''A'') example_db = Some u
              \<longrightarrow> py_int (dget ?d2 ''channel_id'') = Inr c \<longrightarrow> \<not> channel_admin u c example_db"
    using a c2 ad by simp
  note r1 = t [of "Some ''B''" example_db ?d1 "''2024-01-01 10:05:00''" None,
                THEN conjunct1, THEN mp, OF h1]
  note r2 = t [of "Some ''A''" example_db ?d2 "''2024-01-01 10:05:00''" None,
                THEN conjunct2, THEN mp, OF h2]
  from b c1 m r1 a c2 ad r2 show ?thesis by blast
qed

subsection \<open>Personal messages\<close>

lemma word_sint_roundtrip: "word_of_int (sint w) = (w :: sqlint)"
  by simp

lemma find_snoc:
  "find P (xs @ [y]) = (case find P xs of None \<Rightarrow> (if P y then Some y else None) | Some x \<Rightarrow> Some x)"
  by (induction xs) auto

lemma next_rowid_fresh:
  assumes "next_rowid probe rows = Inr i" and "r \<in> set rows"
  shows "row_id r \<noteq> i"
proof
  assume eq: "row_id r = i"
  from assms(2) have ne: "rows \<noteq> []" by auto
  define m where "m = Max (set (map (sint \<circ> row_id) rows))"
  from assms(2) have le: "sint (row_id r) \<le> m"
    by (simp add: m_def)
  show False
  proof (cases "m < 2 ^ 63 - 1")
    case True
    with assms(1) ne have i: "i = word_of_int (m + 1)"
      by (simp add: next_rowid_def m_def Let_def)
    have "fits_int64 (sint (row_id r))" by (rule fits_sint)
    with le True have "fits_int64 (m + 1)" by (simp add: fits_int64_def)
    then have "sint (word_of_int (m + 1) :: sqlint) = m + 1" by (rule sint_bind)
    then have "sint i = m + 1" unfolding i .
    with eq le show False by simp
  next
    case False
    with assms(1) ne have "i \<notin> set (map row_id rows)"
      by (auto simp: next_rowid_def m_def Let_def split: option.splits if_splits)
    with assms(2) eq show False by auto
  qed
qed

lemma select_timestamp_new:
  assumes "next_rowid probe rows = Inr i"
  shows "select_timestamp (sint i)
           (rows @ [\<lparr>row_id = i, sender_id = s, target_id = t, content = c, timestamp = now\<rparr>])
         = Inr (Some now)"
proof -
  have "find (\<lambda>r. row_id r = i) rows = None"
    using next_rowid_fresh [OF assms] by (auto simp: find_None_iff)
  then show ?thesis
    by (simp add: select_timestamp_def fits_sint find_snoc)
qed

lemma insert_message_ok:
  assumes "bind_opt_int s = Inr s'" and "bind_opt_int t = Inr t'"
    and "bind_text text = Inr (Some c)" and "next_rowid probe rows = Inr i"
  shows "insert_message s t text now probe rows
         = Inr (sint i, rows @ [\<lparr>row_id = i, sender_id = s', target_id = t',
                                  content = c, timestamp = now\<rparr>])"
  using assms by (simp add: insert_message_def)

lemma get_user_id_fits: "get_user_id username db = Some u \<Longrightarrow> fits_int64 u"
  by (auto simp: get_user_id_def fits_sint split: option.splits)

lemma personal_message_run:
  assumes tx: "truthy (dget data ''text'')"
    and name: "username = Some name" "name \<noteq> []"
    and room: "dget data ''room'' = JStr r" "py_split CHR '':'' r = [a, b]"
    and ids: "int_of_str a = Some u1" "int_of_str b = Some u2"
    and self: "get_user_id username db = self"
    and other: "other = (if self = Some u1 then u2 else u1)" "fits_int64 other"
    and store: "bind_text (dget data ''text'') = Inr (Some c)"
               "next_rowid probe (personal_messages db) = Inr i"
  shows "personal_message username data now probe db =
           (Returned,
            db\<lparr>personal_messages := personal_messages db @
                 [\<lparr>row_id = i, sender_id = map_option word_of_int self,
                   target_id = Some (word_of_int other), content = c, timestamp = now\<rparr>]\<rparr>,
            [(Room r, Personal_message (sint i) username (dget data ''text'') (Some now))])"
proof -
  have r_ne: "r \<noteq> []" using room(2) by auto
  have bs: "bind_opt_int self = Inr (map_option word_of_int self)"
    using self get_user_id_fits [of username db]
    by (cases self) (auto simp: bind_opt_int_def)
  have bo: "bind_opt_int (Some other) = Inr (Some (word_of_int other))"
    using other(2) by (simp add: bind_opt_int_def)
  note ins = insert_message_ok [OF bs bo store, of now]
  have cr: "create_personal_message self other (dget data ''text'') now probe db
        = Inr (sint i, db\<lparr>personal_messages := personal_messages db @
                 [\<lparr>row_id = i, sender_id = map_option word_of_int self,
                   target_id = Some (word_of_int other), content = c, timestamp = now\<rparr>]\<rparr>)"
    by (simp add: create_personal_message_def ins)
  show ?thesis
    using tx name room ids r_ne self other(1) cr select_timestamp_new [OF store(2)]
    by (simp add: personal_message_def no_username_def Let_def)
qed


lemmas int_of_str_eval =
  int_of_str_def strip_def py_isspace_def unsigned_literal_def py_isdigit_def digit_val_def
  int_max_str_digits_def

lemmas py_str_eval = py_str_def digit_char_def

lemma next_rowid_example: "next_rowid None (personal_messages example_db) = Inr 6"
  by (simp add: next_rowid_def example_db_def)

text \<open>
  C3, as the code has it. For every accepted \<^verbatim>\<open>personal_message\<close> event (a session user
  who is one of the two ids the room names, a text the store takes, ids in the 64-bit
  range, an id the store can assign), the row is stored with the sender and the other
  id, and the one broadcast goes to the room string exactly as the client sent it,
  whatever the order in which it names the ids; the payload carries the id the store
  assigned and the timestamp of the new row.
\<close>

theorem personal_message_to_supplied_room:
  assumes "truthy (dget data ''text'')"
    and "username = Some name" and "name \<noteq> []"
    and "dget data ''room'' = JStr r" and "py_split CHR '':'' r = [a, b]"
    and "int_of_str a = Some u1" and "int_of_str b = Some u2"
    and "get_user_id username db = Some self" and "self = u1 \<or> self = u2"
    and "fits_int64 u1" and "fits_int64 u2"
    and "bind_text (dget data ''text'') = Inr (Some c)"
    and "next_rowid probe (personal_messages db) = Inr i"
  shows "personal_message username data now probe db =
           (Returned,
            db\<lparr>personal_messages := personal_messages db @
                 [\<lparr>row_id = i, sender_id = Some (word_of_int self),
                   target_id = Some (word_of_int (if self = u1 then u2 else u1)),
                   content = c, timestamp = now\<rparr>]\<rparr>,
            [(Room r, Personal_message (sint i) username (dget data ''text'') (Some now))])"
proof -
  have "fits_int64 (if Some self = Some u1 then u2 else u1)"
    using assms(10,11) by simp
  from personal_message_run [OF assms(1-8) refl this assms(12,13), of now]
  show ?thesis by simp
qed

theorem personal_message_to_supplied_room_witness:
  "truthy (dget [''room'' \<mapsto> JStr ''2:1'', ''text'' \<mapsto> JStr ''hi''] ''text'')
   \<and> py_split CHR '':'' ''2:1'' = [''2'', ''1'']
   \<and> int_of_str ''2'' = Some 2 \<and> int_of_str ''1'' = Some 1
   \<and> get_user_id (Some ''A'') example_db = Some 1
   \<and> bind_text (JStr ''hi'') = Inr (Some (Text ''hi''))
   \<and> next_rowid None (personal_messages example_db) = Inr 6
   \<and> personal_message (Some ''A'') [''room'' \<mapsto> JStr ''2:1'', ''text'' \<mapsto> JStr ''hi'']
         ''2024-01-01 10:05:00'' None example_db =
       (Returned,
        example_db\<lparr>personal_messages := personal_messages example_db @
             [\<lparr>row_id = 6, sender_id = Some 1, target_id = Some 2,
               content = Text ''hi'', timestamp = ''2024-01-01 10:05:00''\<rparr>]\<rparr>,
        [(Room ''2:1'',
          Personal_message 6 (Some ''A'') (JStr ''hi'') (Some ''2024-01-01 10:05:00''))])"
proof -
  let ?d = "[''room'' \<mapsto> JStr ''2:1'', ''text'' \<mapsto> JStr ''hi'']"
  have h1: "truthy (dget ?d ''text'')" by (simp add: dget_def)
  have h2: "''A'' \<noteq> []" by simp
  have h3: "dget ?d ''room'' = JStr ''2:1''" by (simp add: dget_def)
  have h4: "py_split CHR '':'' ''2:1'' = [''2'', ''1'']" by simp
  have h5: "int_of_str ''2'' = Some 2" by (simp add: int_of_str_eval)
  have h6: "int_of_str ''1'' = Some 1" by (simp add: int_of_str_eval)
  have h7: "get_user_id (Some ''A'') example_db = Some 1" by (rule get_user_id_example)
  have h8: "(1::int) = 2 \<or> (1::int) = 1" by simp
  have h9: "fits_int64 2" "fits_int64 1" by (simp_all add: fits_int64_def)
  have h10: "bind_text (dget ?d ''text'') = Inr (Some (Text ''hi''))" by (simp add: dget_def bind_text_def)
  note h11 = next_rowid_example
  note t = personal_message_to_supplied_room
             [OF h1 refl h2 h3 h4 h5 h6 h7 h8 h9 h10 h11, of "''2024-01-01 10:05:00''"]
  have tv: "dget ?d ''text'' = JStr ''hi''" by (simp add: dget_def)
  from t have r: "personal_message (Some ''A'') ?d ''2024-01-01 10:05:00'' None example_db =
       (Returned,
        example_db\<lparr>personal_messages := personal_messages example_db @
             [\<lparr>row_id = 6, sender_id = Some 1, target_id = Some 2,
               content = Text ''hi'', timestamp = ''2024-01-01 10:05:00''\<rparr>]\<rparr>,
        [(Room ''2:1'',
          Personal_message 6 (Some ''A'') (JStr ''hi'') (Some ''2024-01-01 10:05:00''))])"
    unfolding tv by simp
  from h1 h4 h5 h6 h7 h10 [unfolded tv] h11 r show ?thesis by blast
qed

text \<open>
  User A (id 1) sends to the room \<^verbatim>\<open>2:1\<close>: the broadcast goes to \<^verbatim>\<open>2:1\<close>, and the canonical
  pair room of the two ids is \<^verbatim>\<open>1:2\<close>.
\<close>

theorem personal_message_room_counterexample:
  "personal_message (Some ''A'') [''room'' \<mapsto> JStr ''2:1'', ''text'' \<mapsto> JStr ''hi'']
         ''2024-01-01 10:05:00'' None example_db =
       (Returned,
        example_db\<lparr>personal_messages := personal_messages example_db @
             [\<lparr>row_id = 6, sender_id = Some 1, target_id = Some 2,
               content = Text ''hi'', timestamp = ''2024-01-01 10:05:00''\<rparr>]\<rparr>,
        [(Room ''2:1'',
          Personal_message 6 (Some ''A'') (JStr ''hi'') (Some ''2024-01-01 10:05:00''))])
   \<and> pair_room 2 1 = ''1:2'' \<and> pair_room 1 2 = ''1:2''"
  by (simp add: personal_message_def dget_def no_username_def get_user_id_def example_db_def
        int_of_str_eval create_personal_message_def insert_message_def bind_opt_int_def
        bind_text_def fits_int64_def next_rowid_def select_timestamp_def pair_room_def
        py_str_eval)


text \<open>
  C2, as the code has it. A \<^verbatim>\<open>personal_message\<close> event whose room parses as a pair of
  user ids and whose sender is neither of the two is not dropped: the handler has no such
  check. With a text the store takes, ids in the 64-bit range and an id the store can
  assign, a row is stored with the sender's own id and the first id of the room as the
  target, and the message is broadcast to the room the client sent.
\<close>

theorem personal_message_from_third_user:
  assumes "truthy (dget data ''text'')"
    and "username = Some name" and "name \<noteq> []"
    and "dget data ''room'' = JStr r" and "py_split CHR '':'' r = [a, b]"
    and "int_of_str a = Some u1" and "int_of_str b = Some u2"
    and "get_user_id username db = Some self" and "self \<noteq> u1" and "self \<noteq> u2"
    and "fits_int64 u1"
    and "bind_text (dget data ''text'') = Inr (Some c)"
    and "next_rowid probe (personal_messages db) = Inr i"
  shows "personal_message username data now probe db =
           (Returned,
            db\<lparr>personal_messages := personal_messages db @
                 [\<lparr>row_id = i, sender_id = Some (word_of_int self),
                   target_id = Some (word_of_int u1), content = c, timestamp = now\<rparr>]\<rparr>,
            [(Room r, Personal_message (sint i) username (dget data ''text'') (Some now))])"
proof -
  have "fits_int64 (if Some self = Some u1 then u2 else u1)"
    using assms(9,11) by simp
  from personal_message_run [OF assms(1-8) refl this assms(12,13), of now] assms(9)
  show ?thesis by simp
qed

theorem personal_message_from_third_user_witness:
  "truthy (dget [''room'' \<mapsto> JStr ''1:2'', ''text'' \<mapsto> JStr ''hi''] ''text'')
   \<and> py_split CHR '':'' ''1:2'' = [''1'', ''2'']
   \<and> int_of_str ''1'' = Some 1 \<and> int_of_str ''2'' = Some 2
   \<and> get_user_id (Some ''C'') example_db = Some 3
   \<and> bind_text (JStr ''hi'') = Inr (Some (Text ''hi''))
   \<and> next_rowid None (personal_messages example_db) = Inr 6
   \<and> personal_message (Some ''C'') [''room'' \<mapsto> JStr ''1:2'', ''text'' \<mapsto> JStr ''hi'']
         ''2024-01-01 10:05:00'' None example_db =
       (Returned,
        example_db\<lparr>personal_messages := personal_messages example_db @
             [\<lparr>row_id = 6, sender_id = Some 3, target_id = Some 1,
               content = Text ''hi'', timestamp = ''2024-01-01 10:05:00''\<rparr>]\<rparr>,
        [(Room ''1:2'',
          Personal_message 6 (Some ''C'') (JStr ''hi'') (Some ''2024-01-01 10:05:00''))])"
proof -
  let ?d = "[''room'' \<mapsto> JStr ''1:2'', ''text'' \<mapsto> JStr ''hi'']"
  have h1: "truthy (dget ?d ''text'')" by (simp add: dget_def)
  have h2: "''C'' \<noteq> []" by simp
  have h3: "dget ?d ''room'' = JStr ''1:2''" by (simp add: dget_def)
  have h4: "py_split CHR '':'' ''1:2'' = [''1'', ''2'']" by simp
  have h5: "int_of_str ''1'' = Some 1" by (simp add: int_of_str_eval)
  have h6: "int_of_str ''2'' = Some 2" by (simp add: int_of_str_eval)
  have h7: "get_user_id (Some ''C'') example_db = Some 3" by (rule get_user_id_example)
  have h8: "(3::int) \<noteq> 1" "(3::int) \<noteq> 2" by simp_all
  have h9: "fits_int64 1" by (simp add: fits_int64_def)
  have h10: "bind_text (dget ?d ''text'') = Inr (Some (Text ''hi''))" by (simp add: dget_def bind_text_def)
  note h11 = next_rowid_example
  note t = personal_message_from_third_user
             [OF h1 refl h2 h3 h4 h5 h6 h7 h8 h9 h10 h11, of "''2024-01-01 10:05:00''"]
  have tv: "dget ?d ''text'' = JStr ''hi''" by (simp add: dget_def)
  from t have r: "personal_message (Some ''C'') ?d ''2024-01-01 10:05:00'' None example_db =
       (Returned,
        example_db\<lparr>personal_messages := personal_messages example_db @
             [\<lparr>row_id = 6, sender_id = Some 3, target_id = Some 1,
               content = Text ''hi'', timestamp = ''2024-01-01 10:05:00''\<rparr>]\<rparr>,
        [(Room ''1:2'',
          Personal_message 6 (Some ''C'') (JStr ''hi'') (Some ''2024-01-01 10:05:00''))])"
    unfolding tv by simp
  from h1 h4 h5 h6 h7 h10 [unfolded tv] h11 r show ?thesis by blast
qed

text \<open>
  User C (id 3) sends to the room \<^verbatim>\<open>1:2\<close>: a row from 3 to 1 is stored and the message is
  broadcast to the room.
\<close>

theorem personal_message_third_user_counterexample:
  "get_user_id (Some ''C'') example_db = Some 3
   \<and> py_split CHR '':'' ''1:2'' = [''1'', ''2'']
   \<and> py_int (JStr ''1'') = Inr 1 \<and> py_int (JStr ''2'') = Inr 2
   \<and> personal_message (Some ''C'') [''room'' \<mapsto> JStr ''1:2'', ''text'' \<mapsto> JStr ''hi'']
         ''2024-01-01 10:05:00'' None example_db =
       (Returned,
        example_db\<lparr>personal_messages := personal_messages example_db @
             [\<lparr>row_id = 6, sender_id = Some 3, target_id = Some 1,
               content = Text ''hi'', timestamp = ''2024-01-01 10:05:00''\<rparr>]\<rparr>,
        [(Room ''1:2'',
          Personal_message 6 (Some ''C'') (JStr ''hi'') (Some ''2024-01-01 10:05:00''))])"
  by (simp add: personal_message_def dget_def no_username_def get_user_id_def example_db_def
        int_of_str_eval create_personal_message_def insert_message_def bind_opt_int_def
        bind_text_def fits_int64_def next_rowid_def select_timestamp_def)

subsection \<open>Deletion notices\<close>

lemma str_nat_length: "0 < k \<Longrightarrow> n < 10 ^ k \<Longrightarrow> length (str_nat n) \<le> k"
proof (induction k arbitrary: n)
  case 0
  then show ?case by simp
next
  case (Suc k)
  show ?case
  proof (cases "n < 10")
    case True
    then show ?thesis by (subst str_nat.simps) simp
  next
    case False
    with Suc.prems have k: "0 < k" by (cases k) auto
    from Suc.prems have "n div 10 < 10 ^ k"
      by (simp add: less_mult_imp_div_less mult.commute)
    with Suc.IH k have "length (str_nat (n div 10)) \<le> k" by blast
    with False show ?thesis by (subst str_nat.simps) simp
  qed
qed

lemma fits_str_ok: "fits_int64 i \<Longrightarrow> \<not> str_raises i"
proof -
  assume "fits_int64 i"
  then have "\<bar>i\<bar> < 10 ^ 19" by (simp add: fits_int64_def abs_if)
  then have "nat \<bar>i\<bar> < 10 ^ 19" by (simp add: nat_less_iff)
  then have "length (str_nat (nat \<bar>i\<bar>)) \<le> 19" by (intro str_nat_length) simp_all
  then show ?thesis by (simp add: str_raises_def int_max_str_digits_def)
qed

lemma delete_message_scoped:
  assumes "\<not> no_username username" and "get_user_id username db = Some uid" and "uid \<noteq> 0"
    and "py_int (py_or (dget data ''id'') (dget data ''message_id'')) = Inr m"
  shows "delete_message username data db =
           (if dget data ''scope'' = JStr ''personal'' then delete_personal m uid data db
            else if dget data ''scope'' = JStr ''chat'' then delete_in_chat m uid data db
            else if dget data ''scope'' = JStr ''channel'' then delete_in_channel m uid data db
            else dropped db)"
  using assms by (simp add: delete_message_def Let_def)

lemma delete_personal_message_False:
  "delete_personal_message m uid db = Inr (False, d) \<Longrightarrow> d = db"
  using delete_personal_message_spec [of m uid db] by blast

lemma delete_chat_message_False:
  "delete_chat_message m uid db = Inr (False, d) \<Longrightarrow> d = db"
  using delete_chat_message_spec [of m uid db] by blast

lemma delete_channel_message_False:
  "delete_channel_message m uid db = Inr (False, d) \<Longrightarrow> d = db"
  using delete_channel_message_spec [of m uid db] by blast

lemma peer_id_of_cases:
  "py_int (dget data ''peer_id'') \<noteq> Inl OverflowError \<Longrightarrow> \<exists>peer. peer_id_of data = Inr peer"
  by (cases "py_int (dget data ''peer_id'')") (auto simp: peer_id_of_def dest: py_int_raises)

lemma peer_id_of_unusable:
  "py_int (dget data ''peer_id'') = Inl TypeError
   \<or> py_int (dget data ''peer_id'') = Inl ValueError
   \<or> py_int (dget data ''peer_id'') = Inr 0 \<Longrightarrow>
   peer_id_of data = Inr None \<or> peer_id_of data = Inr (Some 0)"
  by (auto simp: peer_id_of_def)

lemma delete_personal_failed:
  assumes "delete_personal_message m uid db = Inr (False, d)"
    and "py_int (dget data ''peer_id'') \<noteq> Inl OverflowError"
  shows "delete_personal m uid data db = (Returned, db, [])"
proof -
  from assms(2) obtain peer where "peer_id_of data = Inr peer"
    using peer_id_of_cases by blast
  with assms(1) delete_personal_message_False [OF assms(1)] show ?thesis
    by (simp add: delete_personal_def)
qed

lemma delete_personal_peer:
  "delete_personal_message m uid db = Inr (True, db') \<Longrightarrow>
   py_int (dget data ''peer_id'') = Inr p \<Longrightarrow> p \<noteq> 0 \<Longrightarrow>
   \<not> str_raises uid \<Longrightarrow> \<not> str_raises p \<Longrightarrow>
   delete_personal m uid data db
     = (Returned, db', [(Room (pair_room uid p), Message_deleted m)])"
  by (simp add: delete_personal_def peer_id_of_def)

lemma delete_personal_no_peer:
  assumes "delete_personal_message m uid db = Inr (True, db')"
    and "py_int (dget data ''peer_id'') = Inl TypeError
         \<or> py_int (dget data ''peer_id'') = Inl ValueError
         \<or> py_int (dget data ''peer_id'') = Inr 0"
  shows "delete_personal m uid data db = (Returned, db', [(Everyone, Message_deleted m)])"
  using assms(1) peer_id_of_unusable [OF assms(2)]
  by (auto simp: delete_personal_def)

lemma delete_in_chat_failed:
  assumes "delete_chat_message m uid db = Inr (False, d)"
    and "py_int (dget data ''chat_id'') \<noteq> Inl OverflowError"
  shows "delete_in_chat m uid data db = (Returned, db, [])"
proof (cases "py_int (dget data ''chat_id'')")
  case (Inl e)
  with assms(2) py_int_raises [OF Inl] show ?thesis
    by (auto simp: delete_in_chat_def except_return_def dropped_def)
next
  case (Inr c)
  with assms(1) delete_chat_message_False [OF assms(1)] show ?thesis
    by (simp add: delete_in_chat_def)
qed

lemma delete_in_chat_done:
  "delete_chat_message m uid db = Inr (True, db') \<Longrightarrow>
   py_int (dget data ''chat_id'') = Inr c \<Longrightarrow> \<not> str_raises c \<Longrightarrow>
   delete_in_chat m uid data db = (Returned, db', [(Room (chat_room c), Message_deleted m)])"
  by (simp add: delete_in_chat_def)

lemma delete_in_channel_failed:
  assumes "delete_channel_message m uid db = Inr (False, d)"
    and "py_int (dget data ''channel_id'') \<noteq> Inl OverflowError"
  shows "delete_in_channel m uid data db = (Returned, db, [])"
proof (cases "py_int (dget data ''channel_id'')")
  case (Inl e)
  with assms(2) py_int_raises [OF Inl] show ?thesis
    by (auto simp: delete_in_channel_def except_return_def dropped_def)
next
  case (Inr c)
  with assms(1) delete_channel_message_False [OF assms(1)] show ?thesis
    by (simp add: delete_in_channel_def)
qed

lemma delete_in_channel_done:
  "delete_channel_message m uid db = Inr (True, db') \<Longrightarrow>
   py_int (dget data ''channel_id'') = Inr c \<Longrightarrow> \<not> str_raises c \<Longrightarrow>
   delete_in_channel m uid data db
     = (Returned, db', [(Room (channel_room c), Message_deleted m)])"
  by (simp add: delete_in_channel_def)

text \<open>
  C9. For every personal-scope \<^verbatim>\<open>delete_message\<close> event that succeeds at the store and
  carries no usable peer id (missing, so that \<^verbatim>\<open>int\<close> raises \<^verbatim>\<open>TypeError\<close>; not an integer,
  so that it raises \<^verbatim>\<open>ValueError\<close>; or zero), the notice goes to every connected client
  and to no room.
\<close>

theorem delete_without_peer_is_global:
  assumes "\<not> no_username username" and "get_user_id username db = Some uid" and "uid \<noteq> 0"
    and "py_int (py_or (dget data ''id'') (dget data ''message_id'')) = Inr m"
    and "dget data ''scope'' = JStr ''personal''"
    and "delete_personal_message m uid db = Inr (True, db')"
    and "py_int (dget data ''peer_id'') = Inl TypeError
         \<or> py_int (dget data ''peer_id'') = Inl ValueError
         \<or> py_int (dget data ''peer_id'') = Inr 0"
  shows "delete_message username data db = (Returned, db', [(Everyone, Message_deleted m)])"
  using delete_message_scoped [OF assms(1-4)] assms(5) delete_personal_no_peer [OF assms(6,7)]
  by simp

lemma delete_example:
  "delete_personal_message 5 1 example_db = Inr (True, example_db\<lparr>personal_messages := []\<rparr>)"
  "delete_personal_message 5 2 example_db = Inr (False, example_db)"
  "delete_chat_message 4 1 example_db = Inr (True, example_db\<lparr>chat_messages := []\<rparr>)"
  "delete_channel_message 6 3 example_db = Inr (True, example_db\<lparr>channel_messages := []\<rparr>)"
  by (simp_all add: delete_personal_message_def delete_chat_message_def
        delete_channel_message_def delete_rows_def owned_by_def fits_int64_def example_db_def)

theorem delete_without_peer_is_global_witness:
  "\<not> no_username (Some ''A'') \<and> get_user_id (Some ''A'') example_db = Some 1
   \<and> py_int (py_or (dget [''scope'' \<mapsto> JStr ''personal'', ''id'' \<mapsto> JInt 5] ''id'')
                    (dget [''scope'' \<mapsto> JStr ''personal'', ''id'' \<mapsto> JInt 5] ''message_id''))
       = Inr 5
   \<and> py_int (dget [''scope'' \<mapsto> JStr ''personal'', ''id'' \<mapsto> JInt 5] ''peer_id'')
       = Inl TypeError
   \<and> delete_personal_message 5 1 example_db
       = Inr (True, example_db\<lparr>personal_messages := []\<rparr>)
   \<and> delete_message (Some ''A'') [''scope'' \<mapsto> JStr ''personal'', ''id'' \<mapsto> JInt 5] example_db
       = (Returned, example_db\<lparr>personal_messages := []\<rparr>, [(Everyone, Message_deleted 5)])
   \<and> py_int (dget [''scope'' \<mapsto> JStr ''personal'', ''id'' \<mapsto> JInt 5,
                    ''peer_id'' \<mapsto> JStr ''two''] ''peer_id'')
       = Inl ValueError
   \<and> delete_message (Some ''A'')
         [''scope'' \<mapsto> JStr ''personal'', ''id'' \<mapsto> JInt 5, ''peer_id'' \<mapsto> JStr ''two'']
         example_db
       = (Returned, example_db\<lparr>personal_messages := []\<rparr>, [(Everyone, Message_deleted 5)])
   \<and> py_int (dget [''scope'' \<mapsto> JStr ''personal'', ''id'' \<mapsto> JInt 5,
                    ''peer_id'' \<mapsto> JInt 0] ''peer_id'')
       = Inr 0
   \<and> delete_message (Some ''A'')
         [''scope'' \<mapsto> JStr ''personal'', ''id'' \<mapsto> JInt 5, ''peer_id'' \<mapsto> JInt 0]
         example_db
       = (Returned, example_db\<lparr>personal_messages := []\<rparr>, [(Everyone, Message_deleted 5)])"
proof -
  let ?d = "[''scope'' \<mapsto> JStr ''personal'', ''id'' \<mapsto> JInt 5]"
  let ?e = "[''scope'' \<mapsto> JStr ''personal'', ''id'' \<mapsto> JInt 5, ''peer_id'' \<mapsto> JStr ''two'']"
  let ?z = "[''scope'' \<mapsto> JStr ''personal'', ''id'' \<mapsto> JInt 5, ''peer_id'' \<mapsto> JInt 0]"
  have h1: "\<not> no_username (Some ''A'')" by (simp add: no_username_def)
  have h2: "get_user_id (Some ''A'') example_db = Some 1" by (rule get_user_id_example)
  have h3: "(1::int) \<noteq> 0" by simp
  have h4: "py_int (py_or (dget ?d ''id'') (dget ?d ''message_id'')) = Inr 5"
    and h4e: "py_int (py_or (dget ?e ''id'') (dget ?e ''message_id'')) = Inr 5"
    and h4z: "py_int (py_or (dget ?z ''id'') (dget ?z ''message_id'')) = Inr 5"
    by (simp_all add: dget_def py_or_def)
  have h5: "dget ?d ''scope'' = JStr ''personal''"
    and h5e: "dget ?e ''scope'' = JStr ''personal''"
    and h5z: "dget ?z ''scope'' = JStr ''personal''"
    by (simp_all add: dget_def)
  note h6 = delete_example(1)
  have p: "py_int (dget ?d ''peer_id'') = Inl TypeError" by (simp add: dget_def)
  have pe: "py_int (dget ?e ''peer_id'') = Inl ValueError"
    by (simp add: dget_def int_of_str_eval)
  have pz: "py_int (dget ?z ''peer_id'') = Inr 0" by (simp add: dget_def)
  note t = delete_without_peer_is_global [OF h1 h2 h3 h4 h5 h6 disjI1, OF p]
  note te = delete_without_peer_is_global [OF h1 h2 h3 h4e h5e h6 disjI2, OF disjI1, OF pe]
  note tz = delete_without_peer_is_global [OF h1 h2 h3 h4z h5z h6 disjI2, OF disjI2, OF pz]
  from h1 h2 h4 p h6 t pe te pz tz show ?thesis by blast
qed

lemma pair_room_example: "pair_room 1 2 = ''1:2''"
  by (simp add: pair_room_def py_str_eval)

lemma chat_room_example: "chat_room 7 = ''chat:7''"
  by (simp add: chat_room_def py_str_eval)

lemma channel_room_example: "channel_room 9 = ''channel:9''"
  by (simp add: channel_room_def py_str_eval)

lemma str_ok_example: "\<not> str_raises 2" "\<not> str_raises 7" "\<not> str_raises 9"
  by (simp_all add: fits_str_ok fits_int64_def)

text \<open>
  C7, as the code has it. For every \<^verbatim>\<open>delete_message\<close> event of a session user with a
  message id that parses, and that reaches the store (the peer id in the personal scope
  is no float infinity, for which \<^verbatim>\<open>int\<close> raises \<^verbatim>\<open>OverflowError\<close>; the chat or channel id
  parses): when the store's deletion fails (no such message, or another sender's), the
  handler returns, the store is unchanged and no notice is emitted; when it succeeds,
  one \<^verbatim>\<open>message_deleted\<close> notice with the message id goes to the canonical pair room in
  the personal scope if the event carries a usable peer id and to every client if the
  peer id is missing, not an integer or zero, to \<^verbatim>\<open>chat:<id>\<close> in the chat scope and to
  \<^verbatim>\<open>channel:<id>\<close> in the channel scope. An id that goes into a room name has at most 4300
  digits, the longest integer Python formats.
\<close>

theorem delete_message_notice:
  assumes "\<not> no_username username" and "get_user_id username db = Some uid" and "uid \<noteq> 0"
    and "py_int (py_or (dget data ''id'') (dget data ''message_id'')) = Inr m"
  shows
    "(dget data ''scope'' = JStr ''personal'' \<longrightarrow>
        (\<forall>d. delete_personal_message m uid db = Inr (False, d) \<longrightarrow>
              py_int (dget data ''peer_id'') \<noteq> Inl OverflowError \<longrightarrow>
              delete_message username data db = (Returned, db, []))
      \<and> (\<forall>db' p. delete_personal_message m uid db = Inr (True, db') \<longrightarrow>
              py_int (dget data ''peer_id'') = Inr p \<longrightarrow> p \<noteq> 0 \<longrightarrow> \<not> str_raises p \<longrightarrow>
              delete_message username data db
                = (Returned, db', [(Room (pair_room uid p), Message_deleted m)]))
      \<and> (\<forall>db'. delete_personal_message m uid db = Inr (True, db') \<longrightarrow>
              py_int (dget data ''peer_id'') = Inl TypeError
              \<or> py_int (dget data ''peer_id'') = Inl ValueError
              \<or> py_int (dget data ''peer_id'') = Inr 0 \<longrightarrow>
              delete_message username data db
                = (Returned, db', [(Everyone, Message_deleted m)])))
     \<and> (dget data ''scope'' = JStr ''chat'' \<longrightarrow>
        (\<forall>d c. delete_chat_message m uid db = Inr (False, d) \<longrightarrow>
              py_int (dget data ''chat_id'') = Inr c \<longrightarrow>
              delete_message username data db = (Returned, db, []))
      \<and> (\<forall>db' c. delete_chat_message m uid db = Inr (True, db') \<longrightarrow>
              py_int (dget data ''chat_id'') = Inr c \<longrightarrow> \<not> str_raises c \<longrightarrow>
              delete_message username data db
                = (Returned, db', [(Room (chat_room c), Message_deleted m)])))
     \<and> (dget data ''scope'' = JStr ''channel'' \<longrightarrow>
        (\<forall>d c. delete_channel_message m uid db = Inr (False, d) \<longrightarrow>
              py_int (dget data ''channel_id'') = Inr c \<longrightarrow>
              delete_message username data db = (Returned, db, []))
      \<and> (\<forall>db' c. delete_channel_message m uid db = Inr (True, db') \<longrightarrow>
              py_int (dget data ''channel_id'') = Inr c \<longrightarrow> \<not> str_raises c \<longrightarrow>
              delete_message username data db
                = (Returned, db', [(Room (channel_room c), Message_deleted m)])))"
proof -
  note sc = delete_message_scoped [OF assms]
  have uid: "\<not> str_raises uid"
    using assms(2) by (intro fits_str_ok get_user_id_fits)
  show ?thesis
  proof (intro conjI impI allI)
    fix d assume "dget data ''scope'' = JStr ''personal''"
      and "delete_personal_message m uid db = Inr (False, d)"
      and "py_int (dget data ''peer_id'') \<noteq> Inl OverflowError"
    then show "delete_message username data db = (Returned, db, [])"
      using sc delete_personal_failed by simp
  next
    fix db' p assume "dget data ''scope'' = JStr ''personal''"
      and "delete_personal_message m uid db = Inr (True, db')"
      and "py_int (dget data ''peer_id'') = Inr p" and "p \<noteq> 0" and "\<not> str_raises p"
    then show "delete_message username data db
                = (Returned, db', [(Room (pair_room uid p), Message_deleted m)])"
      using sc uid delete_personal_peer by simp
  next
    fix db' assume "dget data ''scope'' = JStr ''personal''"
      and "delete_personal_message m uid db = Inr (True, db')"
      and "py_int (dget data ''peer_id'') = Inl TypeError
           \<or> py_int (dget data ''peer_id'') = Inl ValueError
           \<or> py_int (dget data ''peer_id'') = Inr 0"
    then show "delete_message username data db
                = (Returned, db', [(Everyone, Message_deleted m)])"
      using sc delete_personal_no_peer by simp
  next
    fix d c assume "dget data ''scope'' = JStr ''chat''"
      and "delete_chat_message m uid db = Inr (False, d)"
      and "py_int (dget data ''chat_id'') = Inr c"
    then show "delete_message username data db = (Returned, db, [])"
      using sc delete_in_chat_failed [of m uid db d data] by simp
  next
    fix db' c assume "dget data ''scope'' = JStr ''chat''"
      and "delete_chat_message m uid db = Inr (True, db')"
      and "py_int (dget data ''chat_id'') = Inr c" and "\<not> str_raises c"
    then show "delete_message username data db
                = (Returned, db', [(Room (chat_room c), Message_deleted m)])"
      using sc delete_in_chat_done by simp
  next
    fix d c assume "dget data ''scope'' = JStr ''channel''"
      and "delete_channel_message m uid db = Inr (False, d)"
      and "py_int (dget data ''channel_id'') = Inr c"
    then show "delete_message username data db = (Returned, db, [])"
      using sc delete_in_channel_failed [of m uid db d data] by simp
  next
    fix db' c assume "dget data ''scope'' = JStr ''channel''"
      and "delete_channel_message m uid db = Inr (True, db')"
      and "py_int (dget data ''channel_id'') = Inr c" and "\<not> str_raises c"
    then show "delete_message username data db
                = (Returned, db', [(Room (channel_room c), Message_deleted m)])"
      using sc delete_in_channel_done by simp
  qed
qed

theorem delete_message_notice_witness:
  "delete_personal_message 5 1 example_db = Inr (True, example_db\<lparr>personal_messages := []\<rparr>)
   \<and> delete_message (Some ''A'')
         [''scope'' \<mapsto> JStr ''personal'', ''id'' \<mapsto> JInt 5, ''peer_id'' \<mapsto> JStr ''2'']
         example_db
       = (Returned, example_db\<lparr>personal_messages := []\<rparr>,
          [(Room ''1:2'', Message_deleted 5)])
   \<and> delete_personal_message 5 2 example_db = Inr (False, example_db)
   \<and> delete_message (Some ''B'')
         [''scope'' \<mapsto> JStr ''personal'', ''id'' \<mapsto> JInt 5, ''peer_id'' \<mapsto> JStr ''2'']
         example_db
       = (Returned, example_db, [])
   \<and> delete_message (Some ''A'')
         [''scope'' \<mapsto> JStr ''personal'', ''id'' \<mapsto> JInt 5, ''peer_id'' \<mapsto> JStr ''two'']
         example_db
       = (Returned, example_db\<lparr>personal_messages := []\<rparr>,
          [(Everyone, Message_deleted 5)])
   \<and> delete_chat_message 4 1 example_db = Inr (True, example_db\<lparr>chat_messages := []\<rparr>)
   \<and> delete_message (Some ''A'')
         [''scope'' \<mapsto> JStr ''chat'', ''id'' \<mapsto> JInt 4, ''chat_id'' \<mapsto> JInt 7] example_db
       = (Returned, example_db\<lparr>chat_messages := []\<rparr>,
          [(Room ''chat:7'', Message_deleted 4)])
   \<and> delete_channel_message 6 3 example_db
       = Inr (True, example_db\<lparr>channel_messages := []\<rparr>)
   \<and> delete_message (Some ''C'')
         [''scope'' \<mapsto> JStr ''channel'', ''message_id'' \<mapsto> JStr ''6'', ''channel_id'' \<mapsto> JInt 9]
         example_db
       = (Returned, example_db\<lparr>channel_messages := []\<rparr>,
          [(Room ''channel:9'', Message_deleted 6)])"
proof -
  let ?p = "[''scope'' \<mapsto> JStr ''personal'', ''id'' \<mapsto> JInt 5, ''peer_id'' \<mapsto> JStr ''2'']"
  let ?q = "[''scope'' \<mapsto> JStr ''personal'', ''id'' \<mapsto> JInt 5, ''peer_id'' \<mapsto> JStr ''two'']"
  let ?c = "[''scope'' \<mapsto> JStr ''chat'', ''id'' \<mapsto> JInt 4, ''chat_id'' \<mapsto> JInt 7]"
  let ?n = "[''scope'' \<mapsto> JStr ''channel'', ''message_id'' \<mapsto> JStr ''6'',
             ''channel_id'' \<mapsto> JInt 9]"
  have u: "\<not> no_username (Some ''A'')" "\<not> no_username (Some ''B'')"
    "\<not> no_username (Some ''C'')"
    by (simp_all add: no_username_def)
  have z: "(1::int) \<noteq> 0" "(2::int) \<noteq> 0" "(3::int) \<noteq> 0" by simp_all
  have idp: "py_int (py_or (dget ?p ''id'') (dget ?p ''message_id'')) = Inr 5"
    and idq: "py_int (py_or (dget ?q ''id'') (dget ?q ''message_id'')) = Inr 5"
    by (simp_all add: dget_def py_or_def)
  have idc: "py_int (py_or (dget ?c ''id'') (dget ?c ''message_id'')) = Inr 4"
    by (simp add: dget_def py_or_def)
  have idn: "py_int (py_or (dget ?n ''id'') (dget ?n ''message_id'')) = Inr 6"
    by (simp add: dget_def py_or_def int_of_str_eval)
  have sp: "dget ?p ''scope'' = JStr ''personal''"
    and sq: "dget ?q ''scope'' = JStr ''personal''"
    and sc: "dget ?c ''scope'' = JStr ''chat''"
    and sn: "dget ?n ''scope'' = JStr ''channel''"
    by (simp_all add: dget_def)
  have peer: "py_int (dget ?p ''peer_id'') = Inr 2"
    by (simp add: dget_def int_of_str_eval)
  then have peer': "py_int (dget ?p ''peer_id'') \<noteq> Inl OverflowError" by simp
  have nopeer: "py_int (dget ?q ''peer_id'') = Inl ValueError"
    by (simp add: dget_def int_of_str_eval)
  have chat: "py_int (dget ?c ''chat_id'') = Inr 7"
    and chan: "py_int (dget ?n ''channel_id'') = Inr 9"
    by (simp_all add: dget_def)
  note a = delete_message_notice [OF u(1) get_user_id_example(1) z(1) idp,
             THEN conjunct1, THEN mp, OF sp]
  note b = delete_message_notice [OF u(2) get_user_id_example(2) z(2) idp,
             THEN conjunct1, THEN mp, OF sp]
  note q = delete_message_notice [OF u(1) get_user_id_example(1) z(1) idq,
             THEN conjunct1, THEN mp, OF sq]
  note c = delete_message_notice [OF u(1) get_user_id_example(1) z(1) idc,
             THEN conjunct2, THEN conjunct1, THEN mp, OF sc]
  note n = delete_message_notice [OF u(3) get_user_id_example(3) z(3) idn,
             THEN conjunct2, THEN conjunct2, THEN mp, OF sn]
  have r1: "delete_message (Some ''A'') ?p example_db
       = (Returned, example_db\<lparr>personal_messages := []\<rparr>,
          [(Room ''1:2'', Message_deleted 5)])"
    using a [THEN conjunct2, THEN conjunct1, rule_format,
             OF delete_example(1) peer z(2) str_ok_example(1)]
    by (simp add: pair_room_example)
  have r2: "delete_message (Some ''B'') ?p example_db = (Returned, example_db, [])"
    using b [THEN conjunct1, rule_format, OF delete_example(2) peer'] .
  have r3: "delete_message (Some ''A'') ?q example_db
       = (Returned, example_db\<lparr>personal_messages := []\<rparr>,
          [(Everyone, Message_deleted 5)])"
    using q [THEN conjunct2, THEN conjunct2, THEN spec, THEN mp, THEN mp,
             OF delete_example(1) disjI2, OF disjI1, OF nopeer] .
  have r4: "delete_message (Some ''A'') ?c example_db
       = (Returned, example_db\<lparr>chat_messages := []\<rparr>,
          [(Room ''chat:7'', Message_deleted 4)])"
    using c [THEN conjunct2, rule_format, OF delete_example(3) chat str_ok_example(2)]
    by (simp add: chat_room_example)
  have r5: "delete_message (Some ''C'') ?n example_db
       = (Returned, example_db\<lparr>channel_messages := []\<rparr>,
          [(Room ''channel:9'', Message_deleted 6)])"
    using n [THEN conjunct2, rule_format, OF delete_example(4) chan str_ok_example(3)]
    by (simp add: channel_room_example)
  from delete_example r1 r2 r3 r4 r5 show ?thesis by blast
qed

text \<open>
  User A deletes the personal message 5 and names no peer: the notice goes to every
  client, not to the pair room.
\<close>

theorem delete_notice_without_peer_counterexample:
  "dget [''scope'' \<mapsto> JStr ''personal'', ''message_id'' \<mapsto> JInt 5] ''peer_id'' = JNone
   \<and> delete_personal_message 5 1 example_db
       = Inr (True, example_db\<lparr>personal_messages := []\<rparr>)
   \<and> delete_message (Some ''A'') [''scope'' \<mapsto> JStr ''personal'', ''message_id'' \<mapsto> JInt 5]
         example_db
       = (Returned, example_db\<lparr>personal_messages := []\<rparr>, [(Everyone, Message_deleted 5)])"
  by (simp add: delete_message_def delete_personal_def peer_id_of_def no_username_def
        get_user_id_example dget_def py_or_def delete_example)

subsection \<open>Identifiers that do not parse\<close>













end
